theory Spec2Isabelle
  imports Complex_Main "HOL-Library.Word"
begin

section \<open>JavaScript strings\<close>

text \<open>
  A JavaScript string is a sequence of UTF-16 code units. The two marker glyphs of the
  formatter, U+2610 and U+2611, lie in the basic plane and are one code unit each.
  \<open>js\<close> turns an ASCII literal into its code units.
\<close>

type_synonym cu = "16 word"
type_synonym jsstring = "cu list"

definition js :: "string \<Rightarrow> jsstring" where
  "js s = map of_char s"

abbreviation LF :: cu where "LF \<equiv> 0x0A"
abbreviation SP :: cu where "SP \<equiv> 0x20"
abbreviation DQUOTE :: cu where "DQUOTE \<equiv> 0x22"
abbreviation COMMA :: cu where "COMMA \<equiv> 0x2C"
abbreviation COLON :: cu where "COLON \<equiv> 0x3A"
abbreviation SEMICOLON :: cu where "SEMICOLON \<equiv> 0x3B"
abbreviation LBRACE :: cu where "LBRACE \<equiv> 0x7B"
abbreviation RBRACE :: cu where "RBRACE \<equiv> 0x7D"
abbreviation UNCHECKED :: cu where "UNCHECKED \<equiv> 0x2610"
abbreviation CHECKED :: cu where "CHECKED \<equiv> 0x2611"

text \<open>\<^verbatim>\<open>String.prototype.startsWith\<close> and \<^verbatim>\<open>String.prototype.includes\<close>.\<close>

definition startsWith :: "jsstring \<Rightarrow> jsstring \<Rightarrow> bool" where
  "startsWith s p = (take (length p) s = p)"

fun includes_str :: "jsstring \<Rightarrow> jsstring \<Rightarrow> bool" where
  "includes_str [] p = (p = [])"
| "includes_str (c # cs) p = (startsWith (c # cs) p \<or> includes_str cs p)"

text \<open>
  \<^verbatim>\<open>String.prototype.trim\<close> removes white space and line terminators from both ends:
  TAB, LF, VT, FF, CR, SP, NBSP, U+1680, U+2000 to U+200A, U+2028, U+2029, U+202F,
  U+205F, U+3000 and U+FEFF.
\<close>

definition isWhiteSpace :: "cu \<Rightarrow> bool" where
  "isWhiteSpace c =
     (c = 0x09 \<or> c = 0x0A \<or> c = 0x0B \<or> c = 0x0C \<or> c = 0x0D \<or> c = 0x20 \<or> c = 0xA0 \<or>
      c = 0x1680 \<or> (0x2000 \<le> c \<and> c \<le> 0x200A) \<or> c = 0x2028 \<or> c = 0x2029 \<or>
      c = 0x202F \<or> c = 0x205F \<or> c = 0x3000 \<or> c = 0xFEFF)"

definition trim :: "jsstring \<Rightarrow> jsstring" where
  "trim s = rev (dropWhile isWhiteSpace (rev (dropWhile isWhiteSpace s)))"

text \<open>
  \<^verbatim>\<open>s.split(sep)\<close> for a separator of one code unit, and \<^verbatim>\<open>lines.join(sep)\<close>. Splitting
  the empty string gives one empty piece; the result is never empty.
\<close>

fun split_on :: "cu \<Rightarrow> jsstring \<Rightarrow> jsstring list" where
  "split_on sep [] = [[]]"
| "split_on sep (c # cs) =
     (if c = sep then [] # split_on sep cs
      else (case split_on sep cs of [] \<Rightarrow> [[c]] | piece # pieces \<Rightarrow> (c # piece) # pieces))"

fun join_with :: "cu \<Rightarrow> jsstring list \<Rightarrow> jsstring" where
  "join_with sep [] = []"
| "join_with sep [l] = l"
| "join_with sep (l # ls) = l @ sep # join_with sep ls"

text \<open>
  \<^verbatim>\<open>String.prototype.toLowerCase\<close>, restricted to what a comparison with an ASCII word
  can see: the letters A to Z map to a to z and the Kelvin sign U+212A maps to k; every
  other code unit is kept. (None of the mappings of Unicode left out here produces a
  letter of the words \<open>todo\<close> and \<open>task\<close>.)
\<close>

definition lower_unit :: "cu \<Rightarrow> cu" where
  "lower_unit c =
     (if 0x41 \<le> c \<and> c \<le> 0x5A then c + 0x20 else if c = 0x212A then 0x6B else c)"

definition toLowerCase :: "jsstring \<Rightarrow> jsstring" where
  "toLowerCase s = map lower_unit s"

section \<open>JSON values\<close>

text \<open>
  The values \<^verbatim>\<open>JSON.parse\<close> can return. A number is an IEEE double; the parser yields
  finite doubles and the two infinities (for a literal such as \<^verbatim>\<open>1e999\<close>), never NaN.
  A finite double is modelled by the real number it denotes: the only arithmetic the
  program does on a parsed number is \<^verbatim>\<open>Math.min\<close> and \<^verbatim>\<open>Math.max\<close>, which are exact.
  An object keeps its members in order; of two members with one key the later wins.
  \<^verbatim>\<open>undefined\<close> is \<open>None\<close> of \<open>jsval\<close>.
\<close>

datatype jnum = Fin real | PosInf | NegInf

datatype json =
    JNull
  | JBool bool
  | JNum jnum
  | JStr jsstring
  | JArr "json list"
  | JObj "(jsstring \<times> json) list"

type_synonym jsval = "json option"

definition lookup :: "(jsstring \<times> json) list \<Rightarrow> jsstring \<Rightarrow> jsval" where
  "lookup kvs k = map_of (rev kvs) k"

text \<open>
  Reading a property of a parsed value. None of the names the program reads from the
  parsed reply is a property of a string, number, boolean or array, so those give
  \<^verbatim>\<open>undefined\<close>. (Reading a property of \<^verbatim>\<open>null\<close> throws; callers check that first.)
\<close>

fun get_prop :: "json \<Rightarrow> jsstring \<Rightarrow> jsval" where
  "get_prop (JObj kvs) k = lookup kvs k"
| "get_prop _ k = None"

fun truthy :: "jsval \<Rightarrow> bool" where
  "truthy None = False"
| "truthy (Some JNull) = False"
| "truthy (Some (JBool b)) = b"
| "truthy (Some (JNum n)) = (n \<noteq> Fin 0)"
| "truthy (Some (JStr s)) = (s \<noteq> [])"
| "truthy (Some (JArr xs)) = True"
| "truthy (Some (JObj kvs)) = True"

text \<open>
  \<^verbatim>\<open>a || b\<close> is \<open>jor a b\<close>: the left operand when it is truthy, else the right one,
  whatever its type. \<open>or_lit a d\<close> is \<^verbatim>\<open>a || d\<close> for a literal \<open>d\<close>, which is never
  \<^verbatim>\<open>undefined\<close>.
\<close>

definition jor :: "jsval \<Rightarrow> jsval \<Rightarrow> jsval" where
  "jor a b = (if truthy a then a else b)"

definition or_lit :: "jsval \<Rightarrow> json \<Rightarrow> json" where
  "or_lit a d = (case a of None \<Rightarrow> d | Some v \<Rightarrow> if truthy a then v else d)"

fun jnum_le :: "jnum \<Rightarrow> jnum \<Rightarrow> bool" where
  "jnum_le NegInf b = True"
| "jnum_le a PosInf = True"
| "jnum_le (Fin a) (Fin b) = (a \<le> b)"
| "jnum_le a b = False"

definition Math_min :: "jnum \<Rightarrow> jnum \<Rightarrow> jnum" where
  "Math_min a b = (if jnum_le a b then a else b)"

definition Math_max :: "jnum \<Rightarrow> jnum \<Rightarrow> jnum" where
  "Math_max a b = (if jnum_le a b then b else a)"

section \<open>Sanitizing the parsed reply\<close>

text \<open>
  The object literal \<^verbatim>\<open>result\<close> of \<^verbatim>\<open>processHandwrittenNote\<close>. The four fields built with
  \<^verbatim>\<open>||\<close> hold whatever value the operator returns, so their type is \<open>json\<close>; the three
  array fields are guarded by \<^verbatim>\<open>Array.isArray\<close> and the confidence by \<^verbatim>\<open>typeof\<close>.
\<close>

record extracted_note =
  title :: json
  content :: json
  category :: json
  tags :: "json list"
  dates :: "json list"
  contacts :: "json list"
  confidence :: jnum
  raw_text :: json

definition array_or_empty :: "jsval \<Rightarrow> json list" where
  "array_or_empty v = (case v of Some (JArr xs) \<Rightarrow> xs | _ \<Rightarrow> [])"

definition sanitize_confidence :: "jsval \<Rightarrow> jnum" where
  "sanitize_confidence v =
     (case v of Some (JNum n) \<Rightarrow> Math_max (Fin 0) (Math_min (Fin 1) n) | _ \<Rightarrow> Fin 0.8)"

definition sanitize_fields :: "json \<Rightarrow> extracted_note" where
  "sanitize_fields extractedData =
     \<lparr> title = or_lit (get_prop extractedData (js ''title'')) (JStr (js ''Untitled Note'')),
       content = or_lit (get_prop extractedData (js ''content'')) (JStr []),
       category = or_lit (get_prop extractedData (js ''category'')) (JStr (js ''note'')),
       tags = array_or_empty (get_prop extractedData (js ''tags'')),
       dates = array_or_empty (get_prop extractedData (js ''dates'')),
       contacts = array_or_empty (get_prop extractedData (js ''contacts'')),
       confidence = sanitize_confidence (get_prop extractedData (js ''confidence'')),
       raw_text =
         or_lit (jor (get_prop extractedData (js ''raw_text'')) (get_prop extractedData (js ''content'')))
           (JStr []) \<rparr>"

section \<open>Errors\<close>

text \<open>
  What the program throws. \<open>Error m\<close> is \<^verbatim>\<open>new Error(m)\<close>, also used for the failures of
  the collaborators (request parsing, the store, the vision service) with their message;
  \<open>TypeError\<close> is raised by the engine when a method is called on a value that does not
  have it or a property is read from \<^verbatim>\<open>null\<close>; \<open>InvalidCharacterError\<close> is raised by
  \<^verbatim>\<open>atob\<close>. All three are instances of \<^verbatim>\<open>Error\<close>.
\<close>

datatype error = Error jsstring | TypeError | InvalidCharacterError

section \<open>The todo formatter\<close>

text \<open>
  The last block of \<^verbatim>\<open>processHandwrittenNote\<close>. \<^verbatim>\<open>result.category.toLowerCase()\<close> and
  \<^verbatim>\<open>result.content.split\<close> are method calls on whatever the fields hold: on anything but
  a string they throw a \<open>TypeError\<close>.
\<close>

definition is_todo :: "jsstring \<Rightarrow> bool" where
  "is_todo c = (toLowerCase c = js ''todo'' \<or> toLowerCase c = js ''task'')"

definition format_line :: "jsstring \<Rightarrow> jsstring" where
  "format_line line =
     (let trimmedLine = trim line in
      if trimmedLine \<noteq> [] \<and> \<not> startsWith trimmedLine [UNCHECKED] \<and>
         \<not> startsWith trimmedLine [CHECKED]
      then UNCHECKED # SP # trimmedLine
      else line)"

definition format_todo :: "extracted_note \<Rightarrow> error + extracted_note" where
  "format_todo result =
     (case category result of
        JStr c \<Rightarrow>
          if is_todo c then
            (case content result of
               JStr s \<Rightarrow>
                 Inr (result\<lparr>content := JStr (join_with LF (map format_line (split_on LF s)))\<rparr>)
             | _ \<Rightarrow> Inl TypeError)
          else Inr result
      | _ \<Rightarrow> Inl TypeError)"

section \<open>Locating and parsing the reply\<close>

text \<open>
  \<^verbatim>\<open>responseText.match(/\{[\s\S]*\}/)\<close>: the leftmost opening brace that has a closing
  brace after it, up to the last closing brace of the text (the star is greedy). If the
  first opening brace has no closing brace after it, no later one has.
\<close>

definition jsonMatch :: "jsstring \<Rightarrow> jsstring option" where
  "jsonMatch s =
     (let t = dropWhile (\<lambda>c. c \<noteq> LBRACE) s in
      if t = [] then None
      else
        let u = rev (dropWhile (\<lambda>c. c \<noteq> RBRACE) (rev (tl t))) in
        if u = [] then None else Some (LBRACE # u))"

text \<open>
  \<^verbatim>\<open>JSON.parse\<close> belongs to the platform and is a parameter: it returns the parsed value
  or the message of the \<^verbatim>\<open>SyntaxError\<close> it throws. \<open>responseText\<close> is \<^verbatim>\<open>response.text\<close>,
  a string or \<^verbatim>\<open>undefined\<close>.
\<close>

definition parse_reply :: "(jsstring \<Rightarrow> jsstring + json) \<Rightarrow> jsstring option \<Rightarrow> error + json" where
  "parse_reply JSON_parse responseText =
     (case responseText of
        None \<Rightarrow> Inl (Error (js ''Empty response from AI service''))
      | Some t \<Rightarrow>
          if t = [] then Inl (Error (js ''Empty response from AI service''))
          else
            (case jsonMatch t of
               None \<Rightarrow>
                 Inl (Error (js ''Failed to parse AI response: '' @ js ''No JSON found in response''))
             | Some m \<Rightarrow>
                 (case JSON_parse m of
                    Inl msg \<Rightarrow> Inl (Error (js ''Failed to parse AI response: '' @ msg))
                  | Inr extractedData \<Rightarrow> Inr extractedData)))"

text \<open>
  The sanitizer: locate, parse, coerce. Reading \<^verbatim>\<open>extractedData.title\<close> throws when the
  parsed value is \<^verbatim>\<open>null\<close>.
\<close>

definition sanitize :: "(jsstring \<Rightarrow> jsstring + json) \<Rightarrow> jsstring option \<Rightarrow> error + extracted_note" where
  "sanitize JSON_parse responseText =
     (case parse_reply JSON_parse responseText of
        Inl e \<Rightarrow> Inl e
      | Inr extractedData \<Rightarrow>
          if extractedData = JNull then Inl TypeError else Inr (sanitize_fields extractedData))"

section \<open>The prompt\<close>

text \<open>
  The prompt is a fixed template; \<open>prompt\<close> records the three values the options put
  into it. \<^verbatim>\<open>options.category_hints?.length\<close> is read from whatever value the options
  hold, and \<^verbatim>\<open>join\<close> exists on arrays only.

  \<^verbatim>\<open>join\<close> turns every element into a string. That throws a \<open>TypeError\<close> for an object
  with a member named \<^verbatim>\<open>toString\<close> (a parsed member is never callable, and the inherited
  \<^verbatim>\<open>valueOf\<close> returns the object itself), and for an array that holds such an element,
  since the string of an array is its own \<^verbatim>\<open>join\<close>. \<^verbatim>\<open>null\<close> becomes the empty string.
\<close>

record prompt =
  extractDates :: bool
  extractContacts :: bool
  categoryHints :: "json list option"

fun hints_length :: "jsval \<Rightarrow> bool" where
  "hints_length None = False"
| "hints_length (Some JNull) = False"
| "hints_length (Some (JBool b)) = False"
| "hints_length (Some (JNum n)) = False"
| "hints_length (Some (JStr s)) = (s \<noteq> [])"
| "hints_length (Some (JArr xs)) = (xs \<noteq> [])"
| "hints_length (Some (JObj kvs)) = truthy (lookup kvs (js ''length''))"

fun toString_throws :: "json \<Rightarrow> bool" where
  "toString_throws JNull = False"
| "toString_throws (JBool b) = False"
| "toString_throws (JNum n) = False"
| "toString_throws (JStr s) = False"
| "toString_throws (JArr xs) = list_ex toString_throws xs"
| "toString_throws (JObj kvs) = (lookup kvs (js ''toString'') \<noteq> None)"

definition buildPrompt :: "json \<Rightarrow> error + prompt" where
  "buildPrompt options =
     (if options = JNull then Inl TypeError
      else
        let dates = (get_prop options (js ''extract_dates'') \<noteq> Some (JBool False));
            people = (get_prop options (js ''extract_contacts'') = Some (JBool True));
            hints = get_prop options (js ''category_hints'')
        in if hints_length hints then
             (case hints of
                Some (JArr xs) \<Rightarrow>
                  if list_ex toString_throws xs then Inl TypeError
                  else
                    Inr \<lparr>extractDates = dates, extractContacts = people, categoryHints = Some xs\<rparr>
              | _ \<Rightarrow> Inl TypeError)
           else Inr \<lparr>extractDates = dates, extractContacts = people, categoryHints = None\<rparr>)"

section \<open>The pipeline\<close>

text \<open>
  The collaborators of one request: the configured key, the store, the vision service,
  the platform's JSON parser and the two readings of the clock. The effects a handler
  performs are returned as a list, in order: \<open>Stored\<close> is a call of \<^verbatim>\<open>R2.put\<close> with
  the given content type, \<open>Pipeline\<close> a call of \<^verbatim>\<open>processHandwrittenNote\<close> with the given
  image string and options, \<open>Vision\<close> a call of \<^verbatim>\<open>generateContent\<close> with the prompt, the
  MIME type and the payload. The deferred deletion of the stored image is left out.
\<close>

record env =
  GOOGLE_GEMINI_API_KEY :: "jsstring option"
  R2_put :: "jsstring option \<Rightarrow> error option"
  generateContent :: "prompt \<Rightarrow> jsstring option \<Rightarrow> jsstring option \<Rightarrow> error + jsstring option"
  JSON_parse :: "jsstring \<Rightarrow> jsstring + json"
  startTime :: int
  endTime :: int

datatype effect =
    Stored "jsstring option"
  | Pipeline jsstring json
  | Vision prompt "jsstring option" "jsstring option"

fun nth_opt :: "'a list \<Rightarrow> nat \<Rightarrow> 'a option" where
  "nth_opt [] n = None"
| "nth_opt (x # xs) 0 = Some x"
| "nth_opt (x # xs) (Suc n) = nth_opt xs n"

definition mime_of :: "jsstring \<Rightarrow> jsstring option" where
  "mime_of imageData = nth_opt (split_on COLON (hd (split_on SEMICOLON imageData))) (Suc 0)"

definition payload_of :: "jsstring \<Rightarrow> jsstring option" where
  "payload_of imageData = nth_opt (split_on COMMA imageData) (Suc 0)"

definition processHandwrittenNote ::
  "env \<Rightarrow> jsstring \<Rightarrow> json \<Rightarrow> effect list \<times> (error + extracted_note)" where
  "processHandwrittenNote e imageData options =
     (case buildPrompt options of
        Inl err \<Rightarrow> ([Pipeline imageData options], Inl err)
      | Inr p \<Rightarrow>
          ([Pipeline imageData options, Vision p (mime_of imageData) (payload_of imageData)],
           (case generateContent e p (mime_of imageData) (payload_of imageData) of
              Inl err \<Rightarrow> Inl err
            | Inr responseText \<Rightarrow>
                (case sanitize (JSON_parse e) responseText of
                   Inl err \<Rightarrow> Inl err
                 | Inr result \<Rightarrow> format_todo result))))"

section \<open>The REST endpoint\<close>

text \<open>
  \<^verbatim>\<open>btoa\<close> on the bytes of the uploaded file, and the check \<^verbatim>\<open>atob\<close> makes before it
  decodes (the forgiving base64 decoding of the platform): ASCII white space is dropped,
  one or two closing \<^verbatim>\<open>=\<close> are dropped when the length is a multiple of four, and then
  the length must not be 1 modulo 4 and every character must be of the alphabet. The
  decoded bytes only go to the store, so they are not computed. \<^verbatim>\<open>atob(undefined)\<close>
  decodes the text \<^verbatim>\<open>undefined\<close>.
\<close>

definition b64_alphabet :: jsstring where
  "b64_alphabet = js ''ABCDEFGHIJKLMNOPQRSTUVWXYZabcdefghijklmnopqrstuvwxyz0123456789+/''"

definition b64 :: "nat \<Rightarrow> cu" where
  "b64 i = b64_alphabet ! (i mod 64)"

fun btoa :: "8 word list \<Rightarrow> jsstring" where
  "btoa [] = []"
| "btoa [a] = [b64 (unat a div 4), b64 (unat a mod 4 * 16), 0x3D, 0x3D]"
| "btoa [a, b] =
     [b64 (unat a div 4), b64 (unat a mod 4 * 16 + unat b div 16), b64 (unat b mod 16 * 4), 0x3D]"
| "btoa (a # b # c # rest) =
     [b64 (unat a div 4), b64 (unat a mod 4 * 16 + unat b div 16),
      b64 (unat b mod 16 * 4 + unat c div 64), b64 (unat c mod 64)] @ btoa rest"

definition is_b64_char :: "cu \<Rightarrow> bool" where
  "is_b64_char c =
     ((0x41 \<le> c \<and> c \<le> 0x5A) \<or> (0x61 \<le> c \<and> c \<le> 0x7A) \<or> (0x30 \<le> c \<and> c \<le> 0x39) \<or>
      c = 0x2B \<or> c = 0x2F)"

definition is_ascii_space :: "cu \<Rightarrow> bool" where
  "is_ascii_space c = (c = 0x09 \<or> c = 0x0A \<or> c = 0x0C \<or> c = 0x0D \<or> c = 0x20)"

definition strip_padding :: "jsstring \<Rightarrow> jsstring" where
  "strip_padding d =
     (if length d mod 4 = 0 then
        (if 2 \<le> length d \<and> drop (length d - 2) d = [0x3D, 0x3D] then take (length d - 2) d
         else if 1 \<le> length d \<and> drop (length d - 1) d = [0x3D] then take (length d - 1) d
         else d)
      else d)"

definition atob_ok :: "jsstring option \<Rightarrow> bool" where
  "atob_ok v =
     (let d = strip_padding (filter (\<lambda>c. \<not> is_ascii_space c)
                (case v of None \<Rightarrow> js ''undefined'' | Some s \<Rightarrow> s))
      in length d mod 4 \<noteq> 1 \<and> list_all is_b64_char d)"

text \<open>
  The request as the handler reads it: the content type header, and what
  \<^verbatim>\<open>c.req.formData()\<close> (its \<open>image\<close> and \<open>options\<close> entries) and \<^verbatim>\<open>c.req.json()\<close> give or
  throw. An entry of a form is a string or a file; the size of a file is the number of
  its bytes.
\<close>

record image_file =
  file_type :: jsstring
  file_bytes :: "8 word list"

datatype form_value = FormString jsstring | FormFile image_file

record request =
  content_type :: "jsstring option"
  formData :: "error + form_value option \<times> form_value option"
  json_body :: "error + json"

text \<open>
  A response is \<^verbatim>\<open>c.json({error, details, processing_time_ms}, status)\<close>, each of the last
  two members present or not, or the success envelope with status 200.
\<close>

datatype response =
    Failure nat jsstring "error option" "int option"
  | Success extracted_note int

fun mentions_quota :: "error \<Rightarrow> bool" where
  "mentions_quota (Error m) = includes_str m (js ''quota'')"
| "mentions_quota TypeError = False"
| "mentions_quota InvalidCharacterError = False"

definition caught :: "env \<Rightarrow> error \<Rightarrow> response" where
  "caught e err =
     (if mentions_quota err then
        Failure 429 (js ''API quota exceeded. Please try again later.'') None
          (Some (endTime e - startTime e))
      else
        Failure 500 (js ''Failed to process image'') (Some err) (Some (endTime e - startTime e)))"

definition store_and_process :: "env \<Rightarrow> jsstring \<Rightarrow> json \<Rightarrow> effect list \<times> response" where
  "store_and_process e imageData options =
     (if \<not> atob_ok (payload_of imageData) then ([], caught e InvalidCharacterError)
      else
        (case R2_put e (mime_of imageData) of
           Some err \<Rightarrow> ([Stored (mime_of imageData)], caught e err)
         | None \<Rightarrow>
             (case processHandwrittenNote e imageData options of
                (effects, Inl err) \<Rightarrow> (Stored (mime_of imageData) # effects, caught e err)
              | (effects, Inr result) \<Rightarrow>
                  (Stored (mime_of imageData) # effects,
                   Success result (endTime e - startTime e)))))"

definition multipart :: "jsstring option \<Rightarrow> bool" where
  "multipart contentType =
     (case contentType of None \<Rightarrow> False | Some h \<Rightarrow> includes_str h (js ''multipart/form-data''))"

text \<open>
  The handler of \<^verbatim>\<open>POST /api/process-note\<close>, one definition for each of its two branches
  and one for the options entry of a form.
\<close>

definition with_options :: "env \<Rightarrow> jsstring \<Rightarrow> form_value option \<Rightarrow> effect list \<times> response" where
  "with_options e imageData optionsStr =
     (case optionsStr of
        Some (FormString str) \<Rightarrow>
          if str = [] then store_and_process e imageData (JObj [])
          else
            (case JSON_parse e str of
               Inl msg \<Rightarrow> ([], Failure 400 (js ''Invalid options JSON'') None None)
             | Inr options \<Rightarrow> store_and_process e imageData options)
      | _ \<Rightarrow> store_and_process e imageData (JObj []))"

definition multipart_upload ::
  "env \<Rightarrow> form_value option \<Rightarrow> form_value option \<Rightarrow> effect list \<times> response" where
  "multipart_upload e imageFile optionsStr =
     (case imageFile of
        None \<Rightarrow> ([], Failure 400 (js ''No image file provided'') None None)
      | Some (FormString s) \<Rightarrow>
          if s = [] then ([], Failure 400 (js ''No image file provided'') None None)
          else ([], Failure 400 (js ''Invalid file format'') None None)
      | Some (FormFile file) \<Rightarrow>
          if length (file_bytes file) > 10 * 1024 * 1024 then
            ([], Failure 400 (js ''Image file too large. Maximum size is 10MB'') None None)
          else if \<not> startsWith (file_type file) (js ''image/'') then
            ([], Failure 400 (js ''Invalid file type. Only image files are allowed'') None None)
          else
            with_options e
              (js ''data:'' @ file_type file @ js '';base64,'' @ btoa (file_bytes file))
              optionsStr)"

definition json_upload :: "env \<Rightarrow> json \<Rightarrow> effect list \<times> response" where
  "json_upload e body =
     (if body = JNull then ([], caught e TypeError)
      else if \<not> truthy (get_prop body (js ''image'')) then
        ([], Failure 400 (js ''No image data provided'') None None)
      else
        (case get_prop body (js ''image'') of
           Some (JStr imageData) \<Rightarrow>
             store_and_process e imageData (or_lit (get_prop body (js ''options'')) (JObj []))
         | _ \<Rightarrow> ([], caught e TypeError)))"

definition process_note :: "env \<Rightarrow> request \<Rightarrow> effect list \<times> response" where
  "process_note e req =
     (if \<not> truthy (map_option JStr (GOOGLE_GEMINI_API_KEY e)) then
        ([], Failure 500 (js ''Google Gemini API key not configured'') None None)
      else if multipart (content_type req) then
        (case formData req of
           Inl err \<Rightarrow> ([], caught e err)
         | Inr (imageFile, optionsStr) \<Rightarrow> multipart_upload e imageFile optionsStr)
      else
        (case json_body req of
           Inl err \<Rightarrow> ([], caught e err)
         | Inr body \<Rightarrow> json_upload e body))"

section \<open>The tool-calling interface\<close>

text \<open>
  The arguments arrive validated against the tool's schema. The text of a result is a
  fixed message, the message of a caught error, or the serialized note.
\<close>

record tool_args =
  image_arg :: jsstring
  category_hints :: "jsstring list option"
  extract_dates :: bool
  extract_contacts :: bool

datatype tool_text = Message jsstring | Processing_error error | Serialized extracted_note

record tool_result =
  result_text :: tool_text
  isError :: bool

definition tool_options :: "tool_args \<Rightarrow> json" where
  "tool_options a =
     JObj ((case category_hints a of
              None \<Rightarrow> []
            | Some hs \<Rightarrow> [(js ''category_hints'', JArr (map JStr hs))]) @
           [(js ''extract_dates'', JBool (extract_dates a)),
            (js ''extract_contacts'', JBool (extract_contacts a))])"

definition process_handwritten_note :: "env \<Rightarrow> tool_args \<Rightarrow> effect list \<times> tool_result" where
  "process_handwritten_note e a =
     (if \<not> truthy (map_option JStr (GOOGLE_GEMINI_API_KEY e)) then
        ([], \<lparr>result_text = Message (js ''Error: Google Gemini API key not configured''),
              isError = True\<rparr>)
      else if \<not> startsWith (image_arg a) (js ''data:image/'') then
        ([], \<lparr>result_text = Message (js ''Error: Invalid image format. Please provide a base64 encoded image with data URL format (data:image/jpeg;base64,...)''),
              isError = True\<rparr>)
      else
        (case processHandwrittenNote e (image_arg a) (tool_options a) of
           (effects, Inl err) \<Rightarrow> (effects, \<lparr>result_text = Processing_error err, isError = True\<rparr>)
         | (effects, Inr result) \<Rightarrow> (effects, \<lparr>result_text = Serialized result, isError = False\<rparr>)))"

section \<open>Auxiliary notions\<close>

text \<open>
  A line the formatter leaves alone: blank after trimming, or starting with a marker.
\<close>

definition marked :: "jsstring \<Rightarrow> bool" where
  "marked l = (trim l = [] \<or> startsWith (trim l) [UNCHECKED] \<or> startsWith (trim l) [CHECKED])"

text \<open>
  The line transform as the specification words it, for comparison with \<open>format_line\<close>:
  the marker is put in front of the original, untrimmed line.
\<close>

definition spec_format_line :: "jsstring \<Rightarrow> jsstring" where
  "spec_format_line line =
     (if trim line \<noteq> [] \<and> \<not> startsWith (trim line) [UNCHECKED] \<and>
         \<not> startsWith (trim line) [CHECKED]
      then UNCHECKED # SP # line
      else line)"


text \<open>
  The results of the REST endpoint, by the place that produces them: a rejection before
  any processing (no effect, the error text only), the handler of a thrown error, or
  the success envelope.
\<close>

definition outcome :: "env \<Rightarrow> effect list \<times> response \<Rightarrow> bool" where
  "outcome e out =
     ((\<exists>msg. out = ([], Failure 400 msg None None)) \<or>
      out = ([], Failure 500 (js ''Google Gemini API key not configured'') None None) \<or>
      (\<exists>err. snd out = caught e err) \<or>
      (\<exists>result. snd out = Success result (endTime e - startTime e)))"

text \<open>
  A request that passes the checks of the handler, with the image string and the options
  the handler goes on with: a key is configured, and either the form holds a file of at
  most 10 MiB with an image type (the image string is its data URL, the options are the
  parsed options entry, or the empty object when the entry is missing, a file or empty),
  or the JSON body holds a non-empty string under \<open>image\<close> (the options are its
  \<open>options\<close> member, or the empty object when that is falsy).
\<close>

definition accepted :: "env \<Rightarrow> request \<Rightarrow> jsstring \<Rightarrow> json \<Rightarrow> bool" where
  "accepted e req imageData options =
     (truthy (map_option JStr (GOOGLE_GEMINI_API_KEY e)) \<and>
      (if multipart (content_type req) then
         (\<exists>file optionsStr.
            formData req = Inr (Some (FormFile file), optionsStr) \<and>
            length (file_bytes file) \<le> 10 * 1024 * 1024 \<and>
            startsWith (file_type file) (js ''image/'') \<and>
            imageData = js ''data:'' @ file_type file @ js '';base64,'' @ btoa (file_bytes file) \<and>
            (case optionsStr of
               Some (FormString str) \<Rightarrow>
                 if str = [] then options = JObj [] else JSON_parse e str = Inr options
             | _ \<Rightarrow> options = JObj []))
       else
         (\<exists>body.
            json_body req = Inr body \<and>
            get_prop body (js ''image'') = Some (JStr imageData) \<and> imageData \<noteq> [] \<and>
            options = or_lit (get_prop body (js ''options'')) (JObj []))))"

section \<open>Confidence\<close>

lemma clamp_unit_interval:
  "\<exists>x. Math_max (Fin 0) (Math_min (Fin 1) n) = Fin x \<and> 0 \<le> x \<and> x \<le> 1"
  by (cases n) (auto simp: Math_max_def Math_min_def)

text \<open>
  C4. Whatever number the parsed reply holds under \<open>confidence\<close> (the infinities
  included), the sanitized confidence is a finite number between 0 and 1; the numbers
  -5, 0.5 and 2.3 become 0, 0.5 and 1; and a reply whose \<open>confidence\<close> is missing or is
  not a number gets 0.8.
\<close>

theorem confidence_clamped:
  "(\<forall>n. lookup kvs (js ''confidence'') = Some (JNum n) \<longrightarrow>
      (\<exists>x. confidence (sanitize_fields (JObj kvs)) = Fin x \<and> 0 \<le> x \<and> x \<le> 1)) \<and>
   confidence (sanitize_fields (JObj [(js ''confidence'', JNum (Fin (- 5)))])) = Fin 0 \<and>
   confidence (sanitize_fields (JObj [(js ''confidence'', JNum (Fin 0.5))])) = Fin 0.5 \<and>
   confidence (sanitize_fields (JObj [(js ''confidence'', JNum (Fin 2.3))])) = Fin 1 \<and>
   ((\<forall>n. lookup kvs (js ''confidence'') \<noteq> Some (JNum n)) \<longrightarrow>
      confidence (sanitize_fields (JObj kvs)) = Fin 0.8)"
proof (intro conjI allI impI)
  fix n
  assume "lookup kvs (js ''confidence'') = Some (JNum n)"
  then show "\<exists>x. confidence (sanitize_fields (JObj kvs)) = Fin x \<and> 0 \<le> x \<and> x \<le> 1"
    using clamp_unit_interval [of n] by (simp add: sanitize_fields_def sanitize_confidence_def)
next
  show "confidence (sanitize_fields (JObj [(js ''confidence'', JNum (Fin (- 5)))])) = Fin 0"
    by (simp add: sanitize_fields_def sanitize_confidence_def lookup_def Math_max_def Math_min_def)
next
  show "confidence (sanitize_fields (JObj [(js ''confidence'', JNum (Fin 0.5))])) = Fin 0.5"
    by (simp add: sanitize_fields_def sanitize_confidence_def lookup_def Math_max_def Math_min_def)
next
  show "confidence (sanitize_fields (JObj [(js ''confidence'', JNum (Fin 2.3))])) = Fin 1"
    by (simp add: sanitize_fields_def sanitize_confidence_def lookup_def Math_max_def Math_min_def)
next
  assume "\<forall>n. lookup kvs (js ''confidence'') \<noteq> Some (JNum n)"
  then show "confidence (sanitize_fields (JObj kvs)) = Fin 0.8"
    by (auto simp: sanitize_fields_def sanitize_confidence_def split: option.splits json.splits)
qed

theorem confidence_clamped_witness:
  "lookup [(js ''confidence'', JNum PosInf)] (js ''confidence'') = Some (JNum PosInf) \<and>
   (\<exists>x. confidence (sanitize_fields (JObj [(js ''confidence'', JNum PosInf)])) = Fin x \<and>
        0 \<le> x \<and> x \<le> 1) \<and>
   (\<forall>n. lookup [(js ''confidence'', JStr (js ''high''))] (js ''confidence'') \<noteq> Some (JNum n)) \<and>
   confidence (sanitize_fields (JObj [(js ''confidence'', JStr (js ''high''))])) = Fin 0.8"
proof -
  have a: "lookup [(js ''confidence'', JNum PosInf)] (js ''confidence'') = Some (JNum PosInf)"
    by (simp add: lookup_def)
  have b: "\<forall>n. lookup [(js ''confidence'', JStr (js ''high''))] (js ''confidence'') \<noteq> Some (JNum n)"
    by (simp add: lookup_def)
  from a b show ?thesis
    using confidence_clamped [of "[(js ''confidence'', JNum PosInf)]"]
      confidence_clamped [of "[(js ''confidence'', JStr (js ''high''))]"]
    by blast
qed

section \<open>Lines, splitting and trimming\<close>

lemma split_on_nonempty: "split_on sep s \<noteq> []"
  by (induction s) (auto split: list.splits)

lemma split_on_no_sep: "l \<in> set (split_on sep s) \<Longrightarrow> sep \<notin> set l"
proof (induction s arbitrary: l)
  case Nil
  then show ?case by simp
next
  case (Cons c cs)
  show ?case
  proof (cases "c = sep")
    case True
    with Cons show ?thesis by auto
  next
    case False
    obtain h t where ht: "split_on sep cs = h # t"
      using split_on_nonempty [of sep cs] by (cases "split_on sep cs") auto
    with Cons False show ?thesis by auto
  qed
qed

lemma split_on_plain: "sep \<notin> set l \<Longrightarrow> split_on sep l = [l]"
  by (induction l) auto

lemma split_on_append: "sep \<notin> set l \<Longrightarrow> split_on sep (l @ sep # r) = l # split_on sep r"
  by (induction l) auto

lemma join_split: "join_with sep (split_on sep s) = s"
proof (induction s)
  case Nil
  then show ?case by simp
next
  case (Cons c cs)
  obtain h t where ht: "split_on sep cs = h # t"
    using split_on_nonempty [of sep cs] by (cases "split_on sep cs") auto
  show ?case
  proof (cases "c = sep")
    case True
    with Cons ht show ?thesis by simp
  next
    case False
    with Cons ht show ?thesis by (cases t) auto
  qed
qed

lemma split_join:
  "ls \<noteq> [] \<Longrightarrow> \<forall>l \<in> set ls. sep \<notin> set l \<Longrightarrow> split_on sep (join_with sep ls) = ls"
proof (induction sep ls rule: join_with.induct)
  case (1 sep)
  then show ?case by simp
next
  case (2 sep l)
  then show ?case by (simp add: split_on_plain)
next
  case (3 sep l v va)
  then show ?case by (simp add: split_on_append)
qed

lemma set_trim: "set (trim s) \<subseteq> set s"
proof -
  have "set (trim s) = set (dropWhile isWhiteSpace (rev (dropWhile isWhiteSpace s)))"
    by (simp add: trim_def)
  also have "\<dots> \<subseteq> set (rev (dropWhile isWhiteSpace s))"
    by (rule set_dropWhileD [THEN subsetI]) 
  also have "\<dots> \<subseteq> set s"
    using set_dropWhileD [of _ isWhiteSpace s] by auto
  finally show ?thesis .
qed

lemma format_line_no_LF: "LF \<notin> set l \<Longrightarrow> LF \<notin> set (format_line l)"
  using set_trim [of l] by (auto simp: format_line_def Let_def)

lemma trim_last: "trim s \<noteq> [] \<Longrightarrow> \<not> isWhiteSpace (last (trim s))"
proof -
  assume ne: "trim s \<noteq> []"
  let ?e = "dropWhile isWhiteSpace (rev (dropWhile isWhiteSpace s))"
  have e: "?e \<noteq> []" using ne by (simp add: trim_def)
  then have "\<not> isWhiteSpace (hd ?e)" by (rule hd_dropWhile)
  moreover have "last (trim s) = hd ?e" using e by (simp add: trim_def last_rev)
  ultimately show ?thesis by simp
qed

lemma trim_fixed:
  "s \<noteq> [] \<Longrightarrow> \<not> isWhiteSpace (hd s) \<Longrightarrow> \<not> isWhiteSpace (last s) \<Longrightarrow> trim s = s"
proof -
  assume ne: "s \<noteq> []" and h: "\<not> isWhiteSpace (hd s)" and l: "\<not> isWhiteSpace (last s)"
  from ne h have 1: "dropWhile isWhiteSpace s = s" by (cases s) auto
  from ne l have 2: "dropWhile isWhiteSpace (rev s) = rev s"
    by (cases "rev s") (auto simp: last_rev [symmetric] hd_rev)
  show ?thesis by (simp add: trim_def 1 2)
qed

lemma format_line_cases:
  "format_line l = (if marked l then l else UNCHECKED # SP # trim l)"
  by (simp add: format_line_def marked_def Let_def)

lemma trim_prefixed: "trim l \<noteq> [] \<Longrightarrow> trim (UNCHECKED # SP # trim l) = UNCHECKED # SP # trim l"
proof -
  assume ne: "trim l \<noteq> []"
  let ?m = "UNCHECKED # SP # trim l"
  have "\<not> isWhiteSpace (last ?m)" using ne trim_last [of l] by simp
  moreover have "\<not> isWhiteSpace (hd ?m)" by (simp add: isWhiteSpace_def)
  ultimately show "trim ?m = ?m" by (intro trim_fixed) simp_all
qed

lemma format_line_marked: "marked (format_line l)"
proof (cases "marked l")
  case True
  then show ?thesis by (simp add: format_line_cases)
next
  case False
  then have "trim l \<noteq> []" by (simp add: marked_def)
  then have "trim (UNCHECKED # SP # trim l) = UNCHECKED # SP # trim l" by (rule trim_prefixed)
  then have "marked (UNCHECKED # SP # trim l)" by (simp add: marked_def startsWith_def)
  with False show ?thesis by (simp add: format_line_cases)
qed

lemma format_line_idem: "format_line (format_line l) = format_line l"
  using format_line_marked [of l] by (simp add: format_line_cases [of "format_line l"])

lemma lines_formatted:
  "split_on LF (join_with LF (map format_line (split_on LF s))) = map format_line (split_on LF s)"
proof (rule split_join)
  show "map format_line (split_on LF s) \<noteq> []" by (simp add: split_on_nonempty)
  show "\<forall>l\<in>set (map format_line (split_on LF s)). LF \<notin> set l"
    using split_on_no_sep [of _ LF s] format_line_no_LF by auto
qed

lemma format_todo_string:
  "category x = JStr c \<Longrightarrow> content x = JStr s \<Longrightarrow>
   format_todo x =
     Inr (if is_todo c then x\<lparr>content := JStr (join_with LF (map format_line (split_on LF s)))\<rparr>
          else x)"
  by (simp add: format_todo_def)

lemma format_todo_Inr:
  "format_todo x = Inr y \<Longrightarrow>
   \<exists>c. category x = JStr c \<and>
     (if is_todo c
      then \<exists>s. content x = JStr s \<and>
             y = x\<lparr>content := JStr (join_with LF (map format_line (split_on LF s)))\<rparr>
      else y = x)"
  by (auto simp: format_todo_def split: json.splits if_splits)

text \<open>
  C5. Formatting an already formatted note changes nothing: whenever the formatter
  returns a note, it returns that same note when applied to it again. It does return a
  note whenever category and content are strings. After formatting a todo note every
  line of the content is blank or starts with a marker.
\<close>

theorem format_idempotent:
  "(format_todo x = Inr y \<longrightarrow> format_todo y = Inr y) \<and>
   (category x = JStr c \<and> content x = JStr s \<longrightarrow> (\<exists>z. format_todo x = Inr z)) \<and>
   (category x = JStr c \<and> is_todo c \<and> format_todo x = Inr y \<longrightarrow>
      (\<exists>t. content y = JStr t \<and>
        (\<forall>l \<in> set (split_on LF t).
           trim l = [] \<or> startsWith (trim l) [UNCHECKED] \<or> startsWith (trim l) [CHECKED])))"
proof (intro conjI impI)
  assume a: "format_todo x = Inr y"
  then obtain c where c: "category x = JStr c"
    and r: "if is_todo c
      then \<exists>s. content x = JStr s \<and>
             y = x\<lparr>content := JStr (join_with LF (map format_line (split_on LF s)))\<rparr>
      else y = x"
    using format_todo_Inr by blast
  show "format_todo y = Inr y"
  proof (cases "is_todo c")
    case False
    with r a show ?thesis by simp
  next
    case True
    with r obtain s where s: "content x = JStr s"
      and y: "y = x\<lparr>content := JStr (join_with LF (map format_line (split_on LF s)))\<rparr>"
      by auto
    let ?t = "join_with LF (map format_line (split_on LF s))"
    have "join_with LF (map format_line (split_on LF ?t)) = ?t"
      by (simp add: lines_formatted format_line_idem comp_def)
    with True c y show ?thesis by (simp add: format_todo_def)
  qed
next
  assume "category x = JStr c \<and> content x = JStr s"
  then show "\<exists>z. format_todo x = Inr z" by (simp add: format_todo_string)
next
  assume a: "category x = JStr c \<and> is_todo c \<and> format_todo x = Inr y"
  then obtain s where s: "content x = JStr s"
      and y: "y = x\<lparr>content := JStr (join_with LF (map format_line (split_on LF s)))\<rparr>"
    using format_todo_Inr [of x y] by auto
  let ?t = "join_with LF (map format_line (split_on LF s))"
  have "\<forall>l \<in> set (split_on LF ?t). marked l"
    by (simp add: lines_formatted format_line_marked)
  then show "\<exists>t. content y = JStr t \<and>
        (\<forall>l \<in> set (split_on LF t).
           trim l = [] \<or> startsWith (trim l) [UNCHECKED] \<or> startsWith (trim l) [CHECKED])"
    using y by (simp add: marked_def)
qed

section \<open>The formatting contract\<close>

lemma is_todo_examples:
  "is_todo (js ''Todo'')" "is_todo (js ''TASK'')" "is_todo (js ''todo'')" "\<not> is_todo (js ''note'')"
  by (simp_all add: is_todo_def js_def toLowerCase_def lower_unit_def)

text \<open>
  C3, as the code has it. For a note whose category and content are strings: the
  formatter acts exactly when the lower-cased category is \<open>todo\<close> or \<open>task\<close>; then the
  lines of the new content are, in order, the images of the lines of the old content
  under \<open>format_line\<close>, and nothing else of the note changes; otherwise the note is
  returned as it is. \<open>format_line\<close> leaves a line alone when it is blank after trimming or
  its trimmed form starts with a marker, and otherwise returns the marker, a space and
  the trimmed line: the white space around the line is dropped, not preserved.
\<close>

theorem format_contract:
  "(category x = JStr c \<and> content x = JStr s \<and> is_todo c \<longrightarrow>
      (\<exists>t. format_todo x = Inr (x\<lparr>content := JStr t\<rparr>) \<and>
           split_on LF t = map format_line (split_on LF s))) \<and>
   (category x = JStr c \<and> \<not> is_todo c \<longrightarrow> format_todo x = Inr x) \<and>
   is_todo c = (toLowerCase c = js ''todo'' \<or> toLowerCase c = js ''task'') \<and>
   format_line l =
     (if trim l \<noteq> [] \<and> \<not> startsWith (trim l) [UNCHECKED] \<and> \<not> startsWith (trim l) [CHECKED]
      then UNCHECKED # SP # trim l else l) \<and>
   is_todo (js ''Todo'') \<and> is_todo (js ''TASK'') \<and> is_todo (js ''todo'') \<and>
   \<not> is_todo (js ''note'')"
proof (intro conjI impI)
  assume "category x = JStr c \<and> content x = JStr s \<and> is_todo c"
  then have "format_todo x =
      Inr (x\<lparr>content := JStr (join_with LF (map format_line (split_on LF s)))\<rparr>)"
    by (simp add: format_todo_string)
  then show "\<exists>t. format_todo x = Inr (x\<lparr>content := JStr t\<rparr>) \<and>
           split_on LF t = map format_line (split_on LF s)"
    using lines_formatted [of s] by blast
next
  assume "category x = JStr c \<and> \<not> is_todo c"
  then show "format_todo x = Inr x" by (simp add: format_todo_def)
next
  show "is_todo c = (toLowerCase c = js ''todo'' \<or> toLowerCase c = js ''task'')"
    by (simp add: is_todo_def)
next
  show "format_line l =
     (if trim l \<noteq> [] \<and> \<not> startsWith (trim l) [UNCHECKED] \<and> \<not> startsWith (trim l) [CHECKED]
      then UNCHECKED # SP # trim l else l)"
    by (simp add: format_line_def Let_def)
qed (rule is_todo_examples)+

lemma trim_buy_milk: "trim (js ''  buy milk'') = js ''buy milk''"
  by (simp add: trim_def js_def isWhiteSpace_def)

lemma format_line_buy_milk: "format_line (js ''  buy milk'') = UNCHECKED # SP # js ''buy milk''"
  unfolding format_line_def trim_buy_milk by (simp add: js_def startsWith_def)

text \<open>
  C3 as stated fails on an indented line: the stated transform keeps the two leading
  spaces behind the marker, the code drops them.
\<close>

theorem format_contract_counterexample:
  "format_line (js ''  buy milk'') = UNCHECKED # SP # js ''buy milk'' \<and>
   spec_format_line (js ''  buy milk'') = UNCHECKED # SP # js ''  buy milk'' \<and>
   format_line (js ''  buy milk'') \<noteq> spec_format_line (js ''  buy milk'')"
proof -
  have a: "format_line (js ''  buy milk'') = UNCHECKED # SP # js ''buy milk''"
    by (rule format_line_buy_milk)
  have b: "spec_format_line (js ''  buy milk'') = UNCHECKED # SP # js ''  buy milk''"
    unfolding spec_format_line_def trim_buy_milk by (simp add: js_def startsWith_def)
  have "js ''buy milk'' \<noteq> js ''  buy milk''" by (simp add: js_def)
  with a b show ?thesis by simp
qed

lemma format_example:
  "format_todo
     \<lparr>title = JStr (js ''Shopping''),
      content = JStr (js ''  buy milk'' @ [LF, CHECKED] @ js '' done'' @ [LF]),
      category = JStr (js ''Todo''), tags = [], dates = [], contacts = [],
      confidence = Fin 1, raw_text = JStr []\<rparr> =
   Inr \<lparr>title = JStr (js ''Shopping''),
      content = JStr ([UNCHECKED, SP] @ js ''buy milk'' @ [LF, CHECKED] @ js '' done'' @ [LF]),
      category = JStr (js ''Todo''), tags = [], dates = [], contacts = [],
      confidence = Fin 1, raw_text = JStr []\<rparr>"
  by (simp add: format_todo_def is_todo_def toLowerCase_def lower_unit_def js_def
      format_line_def trim_def isWhiteSpace_def startsWith_def Let_def)

text \<open>
  The contract at a todo note of three lines (an indented item, a checked item, an
  empty line) and at a note of another category.
\<close>

theorem format_contract_witness:
  "(\<exists>t. format_todo
     \<lparr>title = JStr (js ''Shopping''),
      content = JStr (js ''  buy milk'' @ [LF, CHECKED] @ js '' done'' @ [LF]),
      category = JStr (js ''Todo''), tags = [], dates = [], contacts = [],
      confidence = Fin 1, raw_text = JStr []\<rparr> =
    Inr \<lparr>title = JStr (js ''Shopping''), content = JStr t,
      category = JStr (js ''Todo''), tags = [], dates = [], contacts = [],
      confidence = Fin 1, raw_text = JStr []\<rparr> \<and>
    split_on LF t = [[UNCHECKED, SP] @ js ''buy milk'', CHECKED # js '' done'', []]) \<and>
   format_todo
     \<lparr>title = JStr (js ''Shopping''), content = JStr (js ''  buy milk''),
      category = JStr (js ''note''), tags = [], dates = [], contacts = [],
      confidence = Fin 1, raw_text = JStr []\<rparr> =
   Inr \<lparr>title = JStr (js ''Shopping''), content = JStr (js ''  buy milk''),
      category = JStr (js ''note''), tags = [], dates = [], contacts = [],
      confidence = Fin 1, raw_text = JStr []\<rparr>"
proof -
  let ?s = "js ''  buy milk'' @ [LF, CHECKED] @ js '' done'' @ [LF]"
  let ?x = "\<lparr>title = JStr (js ''Shopping''), content = JStr ?s,
      category = JStr (js ''Todo''), tags = [], dates = [], contacts = [],
      confidence = Fin 1, raw_text = JStr []\<rparr>"
  let ?n = "\<lparr>title = JStr (js ''Shopping''), content = JStr (js ''  buy milk''),
      category = JStr (js ''note''), tags = [], dates = [], contacts = [],
      confidence = Fin 1, raw_text = JStr []\<rparr>"
  have lines: "map format_line (split_on LF ?s) =
      [[UNCHECKED, SP] @ js ''buy milk'', CHECKED # js '' done'', []]"
    by (simp add: js_def format_line_def trim_def isWhiteSpace_def startsWith_def Let_def)
  have todo: "is_todo (js ''Todo'')" and other: "\<not> is_todo (js ''note'')"
    by (simp_all add: is_todo_def js_def toLowerCase_def lower_unit_def)
  have 1: "\<exists>t. format_todo ?x = Inr (?x\<lparr>content := JStr t\<rparr>) \<and>
           split_on LF t = map format_line (split_on LF ?s)"
    using format_contract [of ?x "js ''Todo''" ?s] todo by simp
  have 2: "format_todo ?n = Inr ?n"
    using format_contract [of ?n "js ''note''"] other by simp
  from 1 2 show ?thesis unfolding lines by simp
qed

text \<open>
  The formatted three-line todo note is a fixed point, the unformatted one is accepted,
  and each line of the formatted content is blank or marked.
\<close>

theorem format_idempotent_witness:
  "format_todo
     \<lparr>title = JStr (js ''Shopping''),
      content = JStr ([UNCHECKED, SP] @ js ''buy milk'' @ [LF, CHECKED] @ js '' done'' @ [LF]),
      category = JStr (js ''Todo''), tags = [], dates = [], contacts = [],
      confidence = Fin 1, raw_text = JStr []\<rparr> =
   Inr \<lparr>title = JStr (js ''Shopping''),
      content = JStr ([UNCHECKED, SP] @ js ''buy milk'' @ [LF, CHECKED] @ js '' done'' @ [LF]),
      category = JStr (js ''Todo''), tags = [], dates = [], contacts = [],
      confidence = Fin 1, raw_text = JStr []\<rparr> \<and>
   (\<exists>z. format_todo
     \<lparr>title = JStr (js ''Shopping''),
      content = JStr (js ''  buy milk'' @ [LF, CHECKED] @ js '' done'' @ [LF]),
      category = JStr (js ''Todo''), tags = [], dates = [], contacts = [],
      confidence = Fin 1, raw_text = JStr []\<rparr> = Inr z) \<and>
   list_all (\<lambda>l. trim l = [] \<or> startsWith (trim l) [UNCHECKED] \<or> startsWith (trim l) [CHECKED])
     (split_on LF ([UNCHECKED, SP] @ js ''buy milk'' @ [LF, CHECKED] @ js '' done'' @ [LF]))"
proof -
  let ?x = "\<lparr>title = JStr (js ''Shopping''),
      content = JStr (js ''  buy milk'' @ [LF, CHECKED] @ js '' done'' @ [LF]),
      category = JStr (js ''Todo''), tags = [], dates = [], contacts = [],
      confidence = Fin 1, raw_text = JStr []\<rparr>"
  let ?t = "[UNCHECKED, SP] @ js ''buy milk'' @ [LF, CHECKED] @ js '' done'' @ [LF]"
  let ?y = "\<lparr>title = JStr (js ''Shopping''), content = JStr ?t,
      category = JStr (js ''Todo''), tags = [], dates = [], contacts = [],
      confidence = Fin 1, raw_text = JStr []\<rparr>"
  have run: "format_todo ?x = Inr ?y" by (rule format_example)
  have todo: "is_todo (js ''Todo'')"
    by (simp add: is_todo_def js_def toLowerCase_def lower_unit_def)
  note 1 = format_idempotent [of ?x ?y, THEN conjunct1, THEN mp, OF run]
  have typed: "category ?x = JStr (js ''Todo'') \<and>
      content ?x = JStr (js ''  buy milk'' @ [LF, CHECKED] @ js '' done'' @ [LF])"
    by simp
  note 2 = format_idempotent [of ?x _ "js ''Todo''", THEN conjunct2, THEN conjunct1, THEN mp, OF typed]
  have trig: "category ?x = JStr (js ''Todo'') \<and> is_todo (js ''Todo'') \<and> format_todo ?x = Inr ?y"
    using run todo by simp
  have "\<exists>t. content ?y = JStr t \<and>
        (\<forall>l \<in> set (split_on LF t).
           trim l = [] \<or> startsWith (trim l) [UNCHECKED] \<or> startsWith (trim l) [CHECKED])"
    by (rule format_idempotent [of ?x ?y "js ''Todo''", THEN conjunct2, THEN conjunct2, THEN mp, OF trig])
  then have 3: "list_all (\<lambda>l. trim l = [] \<or> startsWith (trim l) [UNCHECKED] \<or>
      startsWith (trim l) [CHECKED]) (split_on LF ?t)"
    by (simp add: list_all_iff)
  show ?thesis by (intro conjI) (rule 1 2 3)+
qed


section \<open>Field coercion\<close>

text \<open>
  C1 at the parsed reply \<^verbatim>\<open>{"title": 5}\<close>: sanitization succeeds, but the title of the
  record is the number 5, not a string.
\<close>

theorem sanitize_keeps_number_title:
  "sanitize_fields (JObj [(js ''title'', JNum (Fin 5))]) =
     \<lparr>title = JNum (Fin 5), content = JStr [], category = JStr (js ''note''),
      tags = [], dates = [], contacts = [], confidence = Fin 0.8, raw_text = JStr []\<rparr>"
  by (simp add: sanitize_fields_def lookup_def or_lit_def jor_def array_or_empty_def
      sanitize_confidence_def js_def)

text \<open>
  C2 at the parsed replies \<^verbatim>\<open>{"category": 5}\<close> and
  \<^verbatim>\<open>{"category": "todo", "content": ["buy milk", "call home"]}\<close>: the formatter throws a
  \<open>TypeError\<close> on the sanitized record.
\<close>

theorem format_throws_type_error:
  "format_todo (sanitize_fields (JObj [(js ''category'', JNum (Fin 5))])) = Inl TypeError \<and>
   format_todo (sanitize_fields
     (JObj [(js ''category'', JStr (js ''todo'')),
            (js ''content'', JArr [JStr (js ''buy milk''), JStr (js ''call home'')])])) =
     Inl TypeError"
  by (simp add: sanitize_fields_def lookup_def or_lit_def jor_def array_or_empty_def
      sanitize_confidence_def js_def format_todo_def is_todo_def toLowerCase_def lower_unit_def)

lemma or_lit_falsy: "\<not> truthy a \<Longrightarrow> or_lit a d = d"
  by (cases a) (auto simp: or_lit_def)

lemma or_lit_truthy: "truthy (Some v) \<Longrightarrow> or_lit (Some v) d = v"
  by (simp add: or_lit_def)

lemma falsy_values:
  "v \<in> {None, Some JNull, Some (JBool False), Some (JNum (Fin 0)), Some (JStr [])} \<Longrightarrow> \<not> truthy v"
  by auto

lemma raw_text_falsy:
  "\<not> truthy (lookup kvs (js ''raw_text'')) \<Longrightarrow>
   raw_text (sanitize_fields (JObj kvs)) = content (sanitize_fields (JObj kvs))"
  by (cases "lookup kvs (js ''content'')") (auto simp: sanitize_fields_def jor_def or_lit_def)

text \<open>
  C8, as the code has it. The sanitized raw text is the reply's \<open>raw_text\<close> when that is
  a non-empty string. When \<open>raw_text\<close> is missing, \<open>null\<close>, \<open>false\<close>, 0 or the empty
  string, it is the sanitized content, which in turn is the empty string when \<open>content\<close>
  is missing or one of those values. So the default of the raw text depends on the
  content field: two replies without \<open>raw_text\<close> that differ in \<open>content\<close> get different
  raw texts. It is the one field of this kind: each of the other seven fields is
  determined by the member of its own name alone (two replies that agree on that member
  agree on the field), the raw text by the members \<open>raw_text\<close> and \<open>content\<close>, and the
  empty reply gets the eight defaults.
\<close>

theorem raw_text_fallback:
  "(lookup kvs (js ''raw_text'') = Some (JStr s) \<and> s \<noteq> [] \<longrightarrow>
      raw_text (sanitize_fields (JObj kvs)) = JStr s) \<and>
   (lookup kvs (js ''raw_text'') \<in>
        {None, Some JNull, Some (JBool False), Some (JNum (Fin 0)), Some (JStr [])} \<longrightarrow>
      raw_text (sanitize_fields (JObj kvs)) = content (sanitize_fields (JObj kvs))) \<and>
   (lookup kvs (js ''raw_text'') \<in>
        {None, Some JNull, Some (JBool False), Some (JNum (Fin 0)), Some (JStr [])} \<and>
    lookup kvs (js ''content'') \<in>
        {None, Some JNull, Some (JBool False), Some (JNum (Fin 0)), Some (JStr [])} \<longrightarrow>
      raw_text (sanitize_fields (JObj kvs)) = JStr []) \<and>
   raw_text (sanitize_fields (JObj [(js ''content'', JStr (js ''abc''))])) = JStr (js ''abc'') \<and>
   raw_text (sanitize_fields (JObj [])) = JStr [] \<and>
   (lookup kvs (js ''title'') = lookup kvs' (js ''title'') \<longrightarrow>
      title (sanitize_fields (JObj kvs)) = title (sanitize_fields (JObj kvs'))) \<and>
   (lookup kvs (js ''content'') = lookup kvs' (js ''content'') \<longrightarrow>
      content (sanitize_fields (JObj kvs)) = content (sanitize_fields (JObj kvs'))) \<and>
   (lookup kvs (js ''category'') = lookup kvs' (js ''category'') \<longrightarrow>
      category (sanitize_fields (JObj kvs)) = category (sanitize_fields (JObj kvs'))) \<and>
   (lookup kvs (js ''tags'') = lookup kvs' (js ''tags'') \<longrightarrow>
      tags (sanitize_fields (JObj kvs)) = tags (sanitize_fields (JObj kvs'))) \<and>
   (lookup kvs (js ''dates'') = lookup kvs' (js ''dates'') \<longrightarrow>
      dates (sanitize_fields (JObj kvs)) = dates (sanitize_fields (JObj kvs'))) \<and>
   (lookup kvs (js ''contacts'') = lookup kvs' (js ''contacts'') \<longrightarrow>
      contacts (sanitize_fields (JObj kvs)) = contacts (sanitize_fields (JObj kvs'))) \<and>
   (lookup kvs (js ''confidence'') = lookup kvs' (js ''confidence'') \<longrightarrow>
      confidence (sanitize_fields (JObj kvs)) = confidence (sanitize_fields (JObj kvs'))) \<and>
   (lookup kvs (js ''raw_text'') = lookup kvs' (js ''raw_text'') \<and>
    lookup kvs (js ''content'') = lookup kvs' (js ''content'') \<longrightarrow>
      raw_text (sanitize_fields (JObj kvs)) = raw_text (sanitize_fields (JObj kvs'))) \<and>
   sanitize_fields (JObj []) =
     \<lparr>title = JStr (js ''Untitled Note''), content = JStr [], category = JStr (js ''note''),
      tags = [], dates = [], contacts = [], confidence = Fin 0.8, raw_text = JStr []\<rparr>"
proof (intro conjI impI)
  assume "lookup kvs (js ''raw_text'') = Some (JStr s) \<and> s \<noteq> []"
  then show "raw_text (sanitize_fields (JObj kvs)) = JStr s"
    by (simp add: sanitize_fields_def jor_def or_lit_def)
next
  assume "lookup kvs (js ''raw_text'') \<in>
        {None, Some JNull, Some (JBool False), Some (JNum (Fin 0)), Some (JStr [])}"
  then have "\<not> truthy (lookup kvs (js ''raw_text''))" by (rule falsy_values)
  then show "raw_text (sanitize_fields (JObj kvs)) = content (sanitize_fields (JObj kvs))"
    by (rule raw_text_falsy)
next
  assume a: "lookup kvs (js ''raw_text'') \<in>
        {None, Some JNull, Some (JBool False), Some (JNum (Fin 0)), Some (JStr [])} \<and>
    lookup kvs (js ''content'') \<in>
        {None, Some JNull, Some (JBool False), Some (JNum (Fin 0)), Some (JStr [])}"
  then have r: "\<not> truthy (lookup kvs (js ''raw_text''))"
    and c: "\<not> truthy (lookup kvs (js ''content''))"
    using falsy_values by blast+
  show "raw_text (sanitize_fields (JObj kvs)) = JStr []"
    using r c by (simp add: sanitize_fields_def jor_def or_lit_falsy)
next
  show "raw_text (sanitize_fields (JObj [(js ''content'', JStr (js ''abc''))])) = JStr (js ''abc'')"
    by (simp add: sanitize_fields_def lookup_def or_lit_def jor_def js_def)
next
  show "raw_text (sanitize_fields (JObj [])) = JStr []"
    by (simp add: sanitize_fields_def lookup_def or_lit_def jor_def)
next
  show "sanitize_fields (JObj []) =
     \<lparr>title = JStr (js ''Untitled Note''), content = JStr [], category = JStr (js ''note''),
      tags = [], dates = [], contacts = [], confidence = Fin 0.8, raw_text = JStr []\<rparr>"
    by (simp add: sanitize_fields_def lookup_def or_lit_def jor_def array_or_empty_def
        sanitize_confidence_def)
qed (simp_all add: sanitize_fields_def)

text \<open>
  C8 as stated fails when \<open>raw_text\<close> is present as the empty string: the sanitized raw
  text is then the content, not the empty string.
\<close>

theorem raw_text_fallback_counterexample:
  "lookup [(js ''raw_text'', JStr []), (js ''content'', JStr (js ''abc''))] (js ''raw_text'') =
     Some (JStr []) \<and>
   raw_text (sanitize_fields
     (JObj [(js ''raw_text'', JStr []), (js ''content'', JStr (js ''abc''))])) = JStr (js ''abc'') \<and>
   JStr (js ''abc'') \<noteq> JStr []"
  by (simp add: sanitize_fields_def lookup_def or_lit_def jor_def js_def)

text \<open>
  The three cases at concrete replies, and the title of a reply that has content but no
  title: it is the title of the empty reply.
\<close>

theorem raw_text_fallback_witness:
  "raw_text (sanitize_fields (JObj [(js ''raw_text'', JStr (js ''milk'')),
      (js ''content'', JStr (js ''abc''))])) = JStr (js ''milk'') \<and>
   raw_text (sanitize_fields (JObj [(js ''raw_text'', JNull), (js ''content'', JStr (js ''abc''))])) =
     content (sanitize_fields (JObj [(js ''raw_text'', JNull), (js ''content'', JStr (js ''abc''))])) \<and>
   raw_text (sanitize_fields (JObj [(js ''raw_text'', JStr []), (js ''content'', JBool False)])) =
     JStr [] \<and>
   title (sanitize_fields (JObj [(js ''content'', JStr (js ''abc''))])) =
     title (sanitize_fields (JObj []))"
proof -
  have 1: "lookup [(js ''raw_text'', JStr (js ''milk'')), (js ''content'', JStr (js ''abc''))]
      (js ''raw_text'') = Some (JStr (js ''milk'')) \<and> js ''milk'' \<noteq> []"
    by (simp add: lookup_def js_def)
  have 2: "lookup [(js ''raw_text'', JNull), (js ''content'', JStr (js ''abc''))] (js ''raw_text'')
      \<in> {None, Some JNull, Some (JBool False), Some (JNum (Fin 0)), Some (JStr [])}"
    by (simp add: lookup_def js_def)
  have 3: "lookup [(js ''raw_text'', JStr []), (js ''content'', JBool False)] (js ''raw_text'')
      \<in> {None, Some JNull, Some (JBool False), Some (JNum (Fin 0)), Some (JStr [])} \<and>
    lookup [(js ''raw_text'', JStr []), (js ''content'', JBool False)] (js ''content'')
      \<in> {None, Some JNull, Some (JBool False), Some (JNum (Fin 0)), Some (JStr [])}"
    by (simp add: lookup_def js_def)
  note a = raw_text_fallback [of "[(js ''raw_text'', JStr (js ''milk'')), (js ''content'', JStr (js ''abc''))]"
      "js ''milk''", THEN conjunct1, THEN mp, OF 1]
  note b = raw_text_fallback [of "[(js ''raw_text'', JNull), (js ''content'', JStr (js ''abc''))]",
      THEN conjunct2, THEN conjunct1, THEN mp, OF 2]
  note c = raw_text_fallback [of "[(js ''raw_text'', JStr []), (js ''content'', JBool False)]",
      THEN conjunct2, THEN conjunct2, THEN conjunct1, THEN mp, OF 3]
  have 4: "lookup [(js ''content'', JStr (js ''abc''))] (js ''title'') = lookup [] (js ''title'')"
    by (simp add: lookup_def js_def)
  note d = raw_text_fallback [of "[(js ''content'', JStr (js ''abc''))]" _ "[]",
      THEN conjunct2, THEN conjunct2, THEN conjunct2, THEN conjunct2, THEN conjunct2,
      THEN conjunct1, THEN mp, OF 4]
  show ?thesis by (intro conjI) (rule a b c d)+
qed

section \<open>Locating the JSON object\<close>

lemma jsonMatch_Some:
  assumes "jsonMatch s = Some m"
  shows "\<exists>pre mid post. s = pre @ m @ post \<and> m = LBRACE # mid @ [RBRACE] \<and>
           LBRACE \<notin> set pre \<and> RBRACE \<notin> set post"
proof -
  let ?pre = "takeWhile (\<lambda>c. c \<noteq> LBRACE) s"
  let ?t = "dropWhile (\<lambda>c. c \<noteq> LBRACE) s"
  let ?d = "dropWhile (\<lambda>c. c \<noteq> RBRACE) (rev (tl ?t))"
  let ?post = "rev (takeWhile (\<lambda>c. c \<noteq> RBRACE) (rev (tl ?t)))"
  from assms have t: "?t \<noteq> []" and d: "?d \<noteq> []" and m: "m = LBRACE # rev ?d"
    by (auto simp: jsonMatch_def Let_def split: if_splits)
  from t have "hd ?t = LBRACE" using hd_dropWhile [of "\<lambda>c. c \<noteq> LBRACE" s] by simp
  with t have tl: "?t = LBRACE # tl ?t" by (cases ?t) auto
  from d have "hd ?d = RBRACE" using hd_dropWhile [of "\<lambda>c. c \<noteq> RBRACE" "rev (tl ?t)"] by simp
  with d have "?d = RBRACE # tl ?d" by (cases ?d) auto
  then have mid: "rev ?d = rev (tl ?d) @ [RBRACE]" by (metis rev.simps(2))
  have "rev (tl ?t) = rev ?post @ ?d" by simp
  then have "tl ?t = rev ?d @ ?post" by (metis rev_append rev_rev_ident)
  with tl have "?t = m @ ?post" using m by simp
  then have "s = ?pre @ m @ ?post" by (metis takeWhile_dropWhile_id)
  moreover have "m = LBRACE # rev (tl ?d) @ [RBRACE]" using m mid by simp
  moreover have "LBRACE \<notin> set ?pre" using set_takeWhileD by fastforce
  moreover have "RBRACE \<notin> set ?post" using set_takeWhileD by fastforce
  ultimately show ?thesis by blast
qed

lemma jsonMatch_decomposed:
  assumes "LBRACE \<notin> set pre" and "RBRACE \<notin> set post"
  shows "jsonMatch (pre @ LBRACE # mid @ RBRACE # post) = Some (LBRACE # mid @ [RBRACE])"
proof -
  have 1: "dropWhile (\<lambda>c. c \<noteq> LBRACE) (pre @ LBRACE # mid @ RBRACE # post) =
      LBRACE # mid @ RBRACE # post"
    using assms(1) by (auto simp: dropWhile_append)
  have "rev (mid @ RBRACE # post) = rev post @ RBRACE # rev mid" by simp
  moreover have "dropWhile (\<lambda>c. c \<noteq> RBRACE) (rev post @ RBRACE # rev mid) = RBRACE # rev mid"
    using assms(2) by (auto simp: dropWhile_append)
  ultimately have 2: "rev (dropWhile (\<lambda>c. c \<noteq> RBRACE) (rev (mid @ RBRACE # post))) =
      mid @ [RBRACE]"
    by simp
  show ?thesis unfolding jsonMatch_def 1 Let_def using 2 by simp
qed

lemma braces_first_last:
  assumes "s = a @ LBRACE # b @ RBRACE # c"
  shows "\<exists>pre mid post. s = pre @ LBRACE # mid @ RBRACE # post \<and>
           LBRACE \<notin> set pre \<and> RBRACE \<notin> set post"
proof -
  have "LBRACE \<in> set a \<or> LBRACE \<notin> set a" by simp
  then obtain pre x where x: "a @ [LBRACE] = pre @ LBRACE # x" and pre: "LBRACE \<notin> set pre"
  proof
    assume "LBRACE \<in> set a"
    then obtain p q where "a = p @ LBRACE # q" "LBRACE \<notin> set p"
      by (meson split_list_first)
    then have "a @ [LBRACE] = p @ LBRACE # (q @ [LBRACE])" by simp
    then show ?thesis using that \<open>LBRACE \<notin> set p\<close> by blast
  next
    assume "LBRACE \<notin> set a"
    then show ?thesis using that [of a "[]"] by simp
  qed
  have "RBRACE \<in> set c \<or> RBRACE \<notin> set c" by simp
  then obtain y post where y: "RBRACE # c = y @ RBRACE # post" and post: "RBRACE \<notin> set post"
  proof
    assume "RBRACE \<in> set c"
    then obtain p q where "c = p @ RBRACE # q" "RBRACE \<notin> set q"
      by (meson split_list_last)
    then have "RBRACE # c = (RBRACE # p) @ RBRACE # q" by simp
    then show ?thesis using that \<open>RBRACE \<notin> set q\<close> by blast
  next
    assume "RBRACE \<notin> set c"
    then show ?thesis using that [of "[]" c] by simp
  qed
  have "s = (a @ [LBRACE]) @ b @ (RBRACE # c)" using assms by simp
  also have "\<dots> = pre @ LBRACE # (x @ b @ y) @ RBRACE # post" unfolding x y by simp
  finally show ?thesis using pre post by blast
qed

lemma jsonMatch_None:
  "jsonMatch s = None \<longleftrightarrow> \<not> (\<exists>a b c. s = a @ LBRACE # b @ RBRACE # c)"
proof
  assume n: "jsonMatch s = None"
  show "\<not> (\<exists>a b c. s = a @ LBRACE # b @ RBRACE # c)"
  proof
    assume "\<exists>a b c. s = a @ LBRACE # b @ RBRACE # c"
    then obtain pre mid post where "s = pre @ LBRACE # mid @ RBRACE # post"
      "LBRACE \<notin> set pre" "RBRACE \<notin> set post"
      using braces_first_last by blast
    then have "jsonMatch s = Some (LBRACE # mid @ [RBRACE])"
      by (simp add: jsonMatch_decomposed)
    with n show False by simp
  qed
next
  assume a: "\<not> (\<exists>a b c. s = a @ LBRACE # b @ RBRACE # c)"
  show "jsonMatch s = None"
  proof (cases "jsonMatch s")
    case None
    then show ?thesis .
  next
    case (Some m)
    then obtain pre mid post where "s = pre @ m @ post" "m = LBRACE # mid @ [RBRACE]"
      using jsonMatch_Some by blast
    then have "s = pre @ LBRACE # mid @ RBRACE # post" by simp
    with a show ?thesis by blast
  qed
qed

section \<open>Failure of the sanitizer\<close>

lemma sanitize_unfold:
  "sanitize P reply =
     (case reply of
        None \<Rightarrow> Inl (Error (js ''Empty response from AI service''))
      | Some t \<Rightarrow>
          if t = [] then Inl (Error (js ''Empty response from AI service''))
          else
            (case jsonMatch t of
               None \<Rightarrow>
                 Inl (Error (js ''Failed to parse AI response: '' @ js ''No JSON found in response''))
             | Some m \<Rightarrow>
                 (case P m of
                    Inl msg \<Rightarrow> Inl (Error (js ''Failed to parse AI response: '' @ msg))
                  | Inr v \<Rightarrow> if v = JNull then Inl TypeError else Inr (sanitize_fields v))))"
  by (simp add: sanitize_def parse_reply_def split: option.splits sum.splits)

lemma sanitize_Some:
  "t \<noteq> [] \<Longrightarrow>
   sanitize P (Some t) =
     (case jsonMatch t of
        None \<Rightarrow>
          Inl (Error (js ''Failed to parse AI response: '' @ js ''No JSON found in response''))
      | Some m \<Rightarrow>
          (case P m of
             Inl msg \<Rightarrow> Inl (Error (js ''Failed to parse AI response: '' @ msg))
           | Inr v \<Rightarrow> if v = JNull then Inl TypeError else Inr (sanitize_fields v)))"
  by (simp add: sanitize_unfold)

lemma sanitize_extracts:
  assumes "LBRACE \<notin> set pre" and "RBRACE \<notin> set post"
  shows "sanitize P (Some (pre @ LBRACE # mid @ RBRACE # post)) =
     (case P (LBRACE # mid @ [RBRACE]) of
        Inl msg \<Rightarrow> Inl (Error (js ''Failed to parse AI response: '' @ msg))
      | Inr v \<Rightarrow> if v = JNull then Inl TypeError else Inr (sanitize_fields v))"
  using jsonMatch_decomposed [OF assms, of mid] by (simp add: sanitize_unfold)

lemma sanitize_fails_iff:
  assumes H: "\<forall>m v. P m = Inr v \<and> startsWith m [LBRACE] \<longrightarrow> (\<exists>kvs. v = JObj kvs)"
  shows "(\<exists>e. sanitize P reply = Inl e) \<longleftrightarrow>
      (reply = None \<or> reply = Some [] \<or>
       (\<exists>t. reply = Some t \<and> \<not> (\<exists>a b c. t = a @ LBRACE # b @ RBRACE # c)) \<or>
       (\<exists>pre mid post msg. reply = Some (pre @ LBRACE # mid @ RBRACE # post) \<and>
          LBRACE \<notin> set pre \<and> RBRACE \<notin> set post \<and> P (LBRACE # mid @ [RBRACE]) = Inl msg))"
    (is "?L \<longleftrightarrow> ?R")
proof
  assume ?L
  then obtain e where e: "sanitize P reply = Inl e" ..
  show ?R
  proof (cases reply)
    case None
    then show ?thesis by simp
  next
    case (Some t)
    show ?thesis
    proof (cases "jsonMatch t")
      case None
      then have "\<not> (\<exists>a b c. t = a @ LBRACE # b @ RBRACE # c)" by (simp add: jsonMatch_None)
      with Some show ?thesis by blast
    next
      case m: (Some m)
      then obtain pre mid post where t: "t = pre @ m @ post" and mm: "m = LBRACE # mid @ [RBRACE]"
        and pre: "LBRACE \<notin> set pre" and post: "RBRACE \<notin> set post"
        using jsonMatch_Some by blast
      from t mm have t': "t = pre @ LBRACE # mid @ RBRACE # post" by simp
      show ?thesis
      proof (cases "P m")
        case (Inl msg)
        with Some t' mm pre post show ?thesis by blast
      next
        case (Inr v)
        moreover have "startsWith m [LBRACE]" using mm by (simp add: startsWith_def)
        ultimately obtain kvs where "v = JObj kvs" using H by blast
        with Inr mm have "sanitize P (Some t) = Inr (sanitize_fields v)"
          unfolding t' sanitize_extracts [OF pre post] by simp
        with e Some show ?thesis by simp
      qed
    qed
  qed
next
  assume ?R
  then consider "reply = None" | "reply = Some []"
    | t where "reply = Some t" "\<not> (\<exists>a b c. t = a @ LBRACE # b @ RBRACE # c)"
    | pre mid post msg where "reply = Some (pre @ LBRACE # mid @ RBRACE # post)"
        "LBRACE \<notin> set pre" "RBRACE \<notin> set post" "P (LBRACE # mid @ [RBRACE]) = Inl msg"
    by blast
  then show ?L
  proof cases
    case 1
    then show ?thesis by (simp add: sanitize_unfold)
  next
    case 2
    then show ?thesis by (simp add: sanitize_unfold)
  next
    case 3
    then have "jsonMatch t = None" by (simp add: jsonMatch_None)
    with 3 show ?thesis by (simp add: sanitize_unfold)
  next
    case 4
    then show ?thesis by (simp add: sanitize_extracts)
  qed
qed

lemma sanitize_error_kind:
  assumes H: "\<forall>m v. P m = Inr v \<and> startsWith m [LBRACE] \<longrightarrow> (\<exists>kvs. v = JObj kvs)"
    and e: "sanitize P reply = Inl e"
  shows "\<exists>msg. e = Error msg"
proof (cases reply)
  case None
  with e show ?thesis by (auto simp: sanitize_unfold)
next
  case (Some t)
  show ?thesis
  proof (cases "jsonMatch t")
    case None
    with e Some show ?thesis by (auto simp: sanitize_unfold split: if_splits)
  next
    case m: (Some m)
    then have "startsWith m [LBRACE]" using jsonMatch_Some [of t m] by (auto simp: startsWith_def)
    with H have "\<And>v. P m = Inr v \<Longrightarrow> v \<noteq> JNull" by blast
    with e Some m show ?thesis
      by (auto simp: sanitize_unfold split: if_splits sum.splits)
  qed
qed

lemma example_match:
  \<open>jsonMatch (js ''Here is the result:'' @ [LF] @ js ''{"title":"X"}'' @ [LF] @ js ''Thanks!'') =
    Some (js ''{"title":"X"}'')\<close>
  by (simp add: jsonMatch_def js_def)

lemma no_braces_match: "jsonMatch (js ''no braces here'') = None"
  by (simp add: jsonMatch_def js_def)

lemma defaults_but_title:
  "sanitize_fields (JObj [(js ''title'', JStr (js ''X''))]) =
     \<lparr>title = JStr (js ''X''), content = JStr [], category = JStr (js ''note''),
      tags = [], dates = [], contacts = [], confidence = Fin 0.8, raw_text = JStr []\<rparr>"
  by (simp add: sanitize_fields_def lookup_def or_lit_def jor_def array_or_empty_def
      sanitize_confidence_def js_def)

text \<open>
  C7. Let the platform's parser return an object whenever it accepts a text that starts
  with an opening brace (as \<^verbatim>\<open>JSON.parse\<close> does). Then the sanitizer fails exactly when
  the reply is absent or empty, or has no opening brace followed later by a closing
  brace, or the text from its first opening brace to its last closing brace is rejected
  by the parser; every such failure is an \<open>Error\<close> with a message; and otherwise the
  sanitizer returns the coerced fields of what the parser made of that broadest span.
  For the reply \<^verbatim>\<open>Here is the result:\<close>, newline, \<^verbatim>\<open>{"title":"X"}\<close>, newline,
  \<^verbatim>\<open>Thanks!\<close> the span is \<^verbatim>\<open>{"title":"X"}\<close>, and if the parser reads it as the object
  with title X the result has that title and the default in every other field. The
  reply \<^verbatim>\<open>no braces here\<close> fails.
\<close>

theorem sanitize_failure:
  \<open>((\<forall>m v. parse m = Inr v \<and> startsWith m [LBRACE] \<longrightarrow> (\<exists>kvs. v = JObj kvs)) \<longrightarrow>
     ((\<exists>e. sanitize parse reply = Inl e) \<longleftrightarrow>
        (reply = None \<or> reply = Some [] \<or>
         (\<exists>t. reply = Some t \<and> \<not> (\<exists>a b c. t = a @ LBRACE # b @ RBRACE # c)) \<or>
         (\<exists>pre mid post msg. reply = Some (pre @ LBRACE # mid @ RBRACE # post) \<and>
            LBRACE \<notin> set pre \<and> RBRACE \<notin> set post \<and>
            parse (LBRACE # mid @ [RBRACE]) = Inl msg))) \<and>
     (\<forall>e. sanitize parse reply = Inl e \<longrightarrow> (\<exists>msg. e = Error msg)) \<and>
     (\<forall>pre mid post v. reply = Some (pre @ LBRACE # mid @ RBRACE # post) \<and>
          LBRACE \<notin> set pre \<and> RBRACE \<notin> set post \<and>
          parse (LBRACE # mid @ [RBRACE]) = Inr v \<longrightarrow>
        sanitize parse reply = Inr (sanitize_fields v))) \<and>
   (parse (js ''{"title":"X"}'') = Inr (JObj [(js ''title'', JStr (js ''X''))]) \<longrightarrow>
      sanitize parse
        (Some (js ''Here is the result:'' @ [LF] @ js ''{"title":"X"}'' @ [LF] @ js ''Thanks!'')) =
      Inr \<lparr>title = JStr (js ''X''), content = JStr [], category = JStr (js ''note''),
           tags = [], dates = [], contacts = [], confidence = Fin 0.8, raw_text = JStr []\<rparr>) \<and>
   (\<exists>msg. sanitize parse (Some (js ''no braces here'')) = Inl (Error msg))\<close>
proof (intro conjI impI allI)
  assume H: "\<forall>m v. parse m = Inr v \<and> startsWith m [LBRACE] \<longrightarrow> (\<exists>kvs. v = JObj kvs)"
  then show "(\<exists>e. sanitize parse reply = Inl e) \<longleftrightarrow>
        (reply = None \<or> reply = Some [] \<or>
         (\<exists>t. reply = Some t \<and> \<not> (\<exists>a b c. t = a @ LBRACE # b @ RBRACE # c)) \<or>
         (\<exists>pre mid post msg. reply = Some (pre @ LBRACE # mid @ RBRACE # post) \<and>
            LBRACE \<notin> set pre \<and> RBRACE \<notin> set post \<and>
            parse (LBRACE # mid @ [RBRACE]) = Inl msg))"
    by (rule sanitize_fails_iff)
next
  fix e
  assume "\<forall>m v. parse m = Inr v \<and> startsWith m [LBRACE] \<longrightarrow> (\<exists>kvs. v = JObj kvs)"
    and "sanitize parse reply = Inl e"
  then show "\<exists>msg. e = Error msg" by (rule sanitize_error_kind)
next
  fix pre mid post v
  assume H: "\<forall>m v. parse m = Inr v \<and> startsWith m [LBRACE] \<longrightarrow> (\<exists>kvs. v = JObj kvs)"
    and a: "reply = Some (pre @ LBRACE # mid @ RBRACE # post) \<and>
          LBRACE \<notin> set pre \<and> RBRACE \<notin> set post \<and>
          parse (LBRACE # mid @ [RBRACE]) = Inr v"
  have "startsWith (LBRACE # mid @ [RBRACE]) [LBRACE]" by (simp add: startsWith_def)
  with H a have "v \<noteq> JNull" by blast
  with a show "sanitize parse reply = Inr (sanitize_fields v)"
    by (simp add: sanitize_extracts)
next
  assume p: \<open>parse (js ''{"title":"X"}'') = Inr (JObj [(js ''title'', JStr (js ''X''))])\<close>
  have ne: \<open>js ''Here is the result:'' @ [LF] @ js ''{"title":"X"}'' @ [LF] @ js ''Thanks!'' \<noteq> []\<close>
    by (simp add: js_def)
  show \<open>sanitize parse
        (Some (js ''Here is the result:'' @ [LF] @ js ''{"title":"X"}'' @ [LF] @ js ''Thanks!'')) =
      Inr \<lparr>title = JStr (js ''X''), content = JStr [], category = JStr (js ''note''),
           tags = [], dates = [], contacts = [], confidence = Fin 0.8, raw_text = JStr []\<rparr>\<close>
    unfolding sanitize_Some [OF ne] example_match defaults_but_title [symmetric] using p by simp
next
  have ne: "js ''no braces here'' \<noteq> []" by (simp add: js_def)
  show "\<exists>msg. sanitize parse (Some (js ''no braces here'')) = Inl (Error msg)"
    unfolding sanitize_Some [OF ne] no_braces_match by simp
qed

text \<open>
  The theorem at a parser that accepts the text \<^verbatim>\<open>{"title":"X"}\<close> only: the reply with
  prose around that text is sanitized to the record with title X, and the reply
  \<^verbatim>\<open>{nope}\<close>, whose span the parser rejects, fails.
\<close>

theorem sanitize_failure_witness:
  \<open>sanitize
      (\<lambda>m. if m = js ''{"title":"X"}'' then Inr (JObj [(js ''title'', JStr (js ''X''))])
           else Inl (js ''Unexpected token''))
      (Some (js ''Here is the result:'' @ [LF] @ js ''{"title":"X"}'' @ [LF] @ js ''Thanks!'')) =
    Inr \<lparr>title = JStr (js ''X''), content = JStr [], category = JStr (js ''note''),
         tags = [], dates = [], contacts = [], confidence = Fin 0.8, raw_text = JStr []\<rparr> \<and>
   (\<exists>e. sanitize
      (\<lambda>m. if m = js ''{"title":"X"}'' then Inr (JObj [(js ''title'', JStr (js ''X''))])
           else Inl (js ''Unexpected token''))
      (Some (js ''{nope}'')) = Inl e)\<close>
proof -
  let ?P = \<open>\<lambda>m. if m = js ''{"title":"X"}'' then Inr (JObj [(js ''title'', JStr (js ''X''))])
           else Inl (js ''Unexpected token'')\<close>
  have H: "\<forall>m v. ?P m = Inr v \<and> startsWith m [LBRACE] \<longrightarrow> (\<exists>kvs. v = JObj kvs)"
    by (auto split: if_splits)
  have p: \<open>?P (js ''{"title":"X"}'') = Inr (JObj [(js ''title'', JStr (js ''X''))])\<close>
    by simp
  note 1 = sanitize_failure [of ?P, THEN conjunct2, THEN conjunct1, THEN mp, OF p]
  have shape: "js ''{nope}'' = [] @ LBRACE # js ''nope'' @ RBRACE # []"
    by (simp add: js_def)
  have "?P (LBRACE # js ''nope'' @ [RBRACE]) = Inl (js ''Unexpected token'')"
    by (simp add: js_def)
  then have "\<exists>pre mid post msg. Some (js ''{nope}'') = Some (pre @ LBRACE # mid @ RBRACE # post) \<and>
      LBRACE \<notin> set pre \<and> RBRACE \<notin> set post \<and> ?P (LBRACE # mid @ [RBRACE]) = Inl msg"
    unfolding shape by (intro exI [of _ "[]"] exI [of _ "js ''nope''"] exI) simp
  then have 2: "\<exists>e. sanitize ?P (Some (js ''{nope}'')) = Inl e"
    using sanitize_failure [of ?P "Some (js ''{nope}'')", THEN conjunct1, THEN mp, OF H,
        THEN conjunct1, THEN iffD2]
    by blast
  show ?thesis by (intro conjI) (rule 1 2)+
qed

section \<open>Responses of the REST endpoint\<close>

lemma outcome_caught: "outcome e (effects, caught e err)"
  unfolding outcome_def by (rule disjI2, rule disjI2, rule disjI1) auto

lemma outcome_success: "outcome e (effects, Success result (endTime e - startTime e))"
  unfolding outcome_def by (intro disjI2) auto

lemma outcome_rejected: "outcome e ([], Failure 400 msg None None)"
  unfolding outcome_def by blast

lemma outcome_no_key:
  "outcome e ([], Failure 500 (js ''Google Gemini API key not configured'') None None)"
  unfolding outcome_def by blast

lemma outcome_store_and_process: "outcome e (store_and_process e imageData options)"
  unfolding store_and_process_def
  by (simp add: outcome_caught outcome_success split: option.split prod.split sum.split)

lemma outcome_with_options: "outcome e (with_options e imageData optionsStr)"
  unfolding with_options_def
  by (simp add: outcome_store_and_process outcome_rejected
      split: option.split form_value.split sum.split)

lemma outcome_multipart_upload: "outcome e (multipart_upload e imageFile optionsStr)"
  unfolding multipart_upload_def
  by (simp add: outcome_with_options outcome_rejected split: option.split form_value.split)

lemma outcome_json_upload: "outcome e (json_upload e body)"
  unfolding json_upload_def
  by (simp add: outcome_store_and_process outcome_caught outcome_rejected
      split: option.split json.split)

lemma outcome_process_note: "outcome e (process_note e req)"
  unfolding process_note_def
  by (simp add: outcome_multipart_upload outcome_json_upload outcome_caught outcome_no_key
      split: sum.split prod.split)

lemma caught_cases:
  "caught e err =
     (if mentions_quota err
      then Failure 429 (js ''API quota exceeded. Please try again later.'') None
             (Some (endTime e - startTime e))
      else Failure 500 (js ''Failed to process image'') (Some err)
             (Some (endTime e - startTime e)))"
  by (simp add: caught_def)

lemma response_classes:
  assumes "snd (process_note e req) = Failure st msg det t"
  shows "(st = 400 \<and> det = None \<and> t = None \<and> fst (process_note e req) = []) \<or>
      (st = 500 \<and> msg = js ''Google Gemini API key not configured'' \<and> det = None \<and>
         t = None \<and> fst (process_note e req) = []) \<or>
      (st = 500 \<and> msg = js ''Failed to process image'' \<and>
         (\<exists>err. det = Some err \<and> \<not> mentions_quota err) \<and>
         t = Some (endTime e - startTime e)) \<or>
      (st = 429 \<and> msg = js ''API quota exceeded. Please try again later.'' \<and> det = None \<and>
         t = Some (endTime e - startTime e))"
proof -
  have "outcome e (process_note e req)" by (rule outcome_process_note)
  then consider m where "process_note e req = ([], Failure 400 m None None)"
    | "process_note e req =
        ([], Failure 500 (js ''Google Gemini API key not configured'') None None)"
    | err where "snd (process_note e req) = caught e err"
    | r where "snd (process_note e req) = Success r (endTime e - startTime e)"
    unfolding outcome_def by blast
  then show ?thesis
  proof cases
    case 1
    with assms show ?thesis by simp
  next
    case 2
    with assms show ?thesis by simp
  next
    case 3
    with assms have "caught e err = Failure st msg det t" by simp
    then show ?thesis by (cases "mentions_quota err") (auto simp: caught_cases)
  next
    case 4
    with assms show ?thesis by simp
  qed
qed

lemma success_timed:
  assumes "snd (process_note e req) = Success result t"
  shows "t = endTime e - startTime e"
proof -
  have "outcome e (process_note e req)" by (rule outcome_process_note)
  then consider m where "process_note e req = ([], Failure 400 m None None)"
    | "process_note e req =
        ([], Failure 500 (js ''Google Gemini API key not configured'') None None)"
    | err where "snd (process_note e req) = caught e err"
    | r where "snd (process_note e req) = Success r (endTime e - startTime e)"
    unfolding outcome_def by blast
  then show ?thesis
  proof cases
    case 1
    with assms show ?thesis by simp
  next
    case 2
    with assms show ?thesis by simp
  next
    case 3
    with assms have "caught e err = Success result t" by simp
    then show ?thesis by (simp add: caught_cases split: if_splits)
  next
    case 4
    with assms show ?thesis by simp
  qed
qed

lemma accepted_runs:
  assumes "accepted e req imageData options"
  shows "process_note e req = store_and_process e imageData options"
proof (cases "multipart (content_type req)")
  case True
  with assms obtain upload optionsStr where k: "truthy (map_option JStr (GOOGLE_GEMINI_API_KEY e))"
    and f: "formData req = Inr (Some (FormFile upload), optionsStr)"
    and sz: "length (file_bytes upload) \<le> 10 * 1024 * 1024"
    and ty: "startsWith (file_type upload) (js ''image/'')"
    and i: "imageData = js ''data:'' @ file_type upload @ js '';base64,'' @ btoa (file_bytes upload)"
    and o: "(case optionsStr of
               Some (FormString str) \<Rightarrow>
                 if str = [] then options = JObj [] else JSON_parse e str = Inr options
             | _ \<Rightarrow> options = JObj [])"
    unfolding accepted_def by auto
  from k True f have "process_note e req = multipart_upload e (Some (FormFile upload)) optionsStr"
    by (simp add: process_note_def)
  also from sz ty i have "\<dots> = with_options e imageData optionsStr"
    by (simp add: multipart_upload_def)
  also from o have "\<dots> = store_and_process e imageData options"
    by (auto simp: with_options_def split: option.splits form_value.splits if_splits)
  finally show ?thesis .
next
  case False
  with assms obtain body where k: "truthy (map_option JStr (GOOGLE_GEMINI_API_KEY e))"
    and b: "json_body req = Inr body"
    and i: "get_prop body (js ''image'') = Some (JStr imageData)" "imageData \<noteq> []"
    and o: "options = or_lit (get_prop body (js ''options'')) (JObj [])"
    unfolding accepted_def by auto
  from i have "body \<noteq> JNull" by auto
  with k False b i o show ?thesis
    by (simp add: process_note_def json_upload_def)
qed

lemma pipeline_outcome:
  "snd (processHandwrittenNote e imageData options) =
     (case buildPrompt options of
        Inl err \<Rightarrow> Inl err
      | Inr p \<Rightarrow>
          (case generateContent e p (mime_of imageData) (payload_of imageData) of
             Inl err \<Rightarrow> Inl err
           | Inr responseText \<Rightarrow>
               (case sanitize (JSON_parse e) responseText of
                  Inl err \<Rightarrow> Inl err
                | Inr result \<Rightarrow> format_todo result)))"
  by (simp add: processHandwrittenNote_def split: sum.split)

lemma stored_outcome:
  assumes "atob_ok (payload_of imageData)" and "R2_put e (mime_of imageData) = None"
  shows "snd (store_and_process e imageData options) =
     (case snd (processHandwrittenNote e imageData options) of
        Inl err \<Rightarrow> caught e err
      | Inr result \<Rightarrow> Success result (endTime e - startTime e))"
  using assms by (simp add: store_and_process_def split: prod.split sum.split)

lemma accepted_outcomes:
  assumes a: "accepted e req imageData options"
  shows "(\<not> atob_ok (payload_of imageData) \<longrightarrow>
        process_note e req = ([], caught e InvalidCharacterError)) \<and>
     (atob_ok (payload_of imageData) \<and> R2_put e (mime_of imageData) = Some err \<longrightarrow>
        process_note e req = ([Stored (mime_of imageData)], caught e err)) \<and>
     (atob_ok (payload_of imageData) \<and> R2_put e (mime_of imageData) = None \<longrightarrow>
        (buildPrompt options = Inl err \<longrightarrow> snd (process_note e req) = caught e err) \<and>
        (\<forall>p. buildPrompt options = Inr p \<longrightarrow>
           (generateContent e p (mime_of imageData) (payload_of imageData) = Inl err \<longrightarrow>
              snd (process_note e req) = caught e err) \<and>
           (\<forall>reply. generateContent e p (mime_of imageData) (payload_of imageData) = Inr reply \<longrightarrow>
              (sanitize (JSON_parse e) reply = Inl err \<longrightarrow>
                 snd (process_note e req) = caught e err) \<and>
              (\<forall>r. sanitize (JSON_parse e) reply = Inr r \<longrightarrow>
                 (format_todo r = Inl err \<longrightarrow> snd (process_note e req) = caught e err) \<and>
                 (\<forall>r'. format_todo r = Inr r' \<longrightarrow>
                    snd (process_note e req) = Success r' (endTime e - startTime e))))))"
proof -
  have run: "process_note e req = store_and_process e imageData options"
    using a by (rule accepted_runs)
  show ?thesis
  proof (intro conjI impI allI)
    assume "\<not> atob_ok (payload_of imageData)"
    then show "process_note e req = ([], caught e InvalidCharacterError)"
      unfolding run by (simp add: store_and_process_def)
  next
    assume "atob_ok (payload_of imageData) \<and> R2_put e (mime_of imageData) = Some err"
    then show "process_note e req = ([Stored (mime_of imageData)], caught e err)"
      unfolding run by (simp add: store_and_process_def)
  next
    assume s: "atob_ok (payload_of imageData) \<and> R2_put e (mime_of imageData) = None"
      and "buildPrompt options = Inl err"
    then show "snd (process_note e req) = caught e err"
      unfolding run by (simp add: stored_outcome pipeline_outcome)
  next
    fix p
    assume s: "atob_ok (payload_of imageData) \<and> R2_put e (mime_of imageData) = None"
      and "buildPrompt options = Inr p"
      and "generateContent e p (mime_of imageData) (payload_of imageData) = Inl err"
    then show "snd (process_note e req) = caught e err"
      unfolding run by (simp add: stored_outcome pipeline_outcome)
  next
    fix p reply
    assume s: "atob_ok (payload_of imageData) \<and> R2_put e (mime_of imageData) = None"
      and "buildPrompt options = Inr p"
      and "generateContent e p (mime_of imageData) (payload_of imageData) = Inr reply"
      and "sanitize (JSON_parse e) reply = Inl err"
    then show "snd (process_note e req) = caught e err"
      unfolding run by (simp add: stored_outcome pipeline_outcome)
  next
    fix p reply r
    assume s: "atob_ok (payload_of imageData) \<and> R2_put e (mime_of imageData) = None"
      and "buildPrompt options = Inr p"
      and "generateContent e p (mime_of imageData) (payload_of imageData) = Inr reply"
      and "sanitize (JSON_parse e) reply = Inr r"
      and "format_todo r = Inl err"
    then show "snd (process_note e req) = caught e err"
      unfolding run by (simp add: stored_outcome pipeline_outcome)
  next
    fix p reply r r'
    assume s: "atob_ok (payload_of imageData) \<and> R2_put e (mime_of imageData) = None"
      and "buildPrompt options = Inr p"
      and "generateContent e p (mime_of imageData) (payload_of imageData) = Inr reply"
      and "sanitize (JSON_parse e) reply = Inr r"
      and "format_todo r = Inr r'"
    then show "snd (process_note e req) = Success r' (endTime e - startTime e)"
      unfolding run by (simp add: stored_outcome pipeline_outcome)
  qed
qed

lemma thrown_before_upload:
  assumes k: "truthy (map_option JStr (GOOGLE_GEMINI_API_KEY e))"
  shows "(multipart (content_type req) \<and> formData req = Inl err \<longrightarrow>
        process_note e req = ([], caught e err)) \<and>
     (\<not> multipart (content_type req) \<and> json_body req = Inl err \<longrightarrow>
        process_note e req = ([], caught e err)) \<and>
     (\<not> multipart (content_type req) \<and> json_body req = Inr body \<and>
      (body = JNull \<or>
       truthy (get_prop body (js ''image'')) \<and>
       (\<forall>s. get_prop body (js ''image'') \<noteq> Some (JStr s))) \<longrightarrow>
        process_note e req = ([], caught e TypeError))"
proof (intro conjI impI)
  assume "multipart (content_type req) \<and> formData req = Inl err"
  with k show "process_note e req = ([], caught e err)" by (simp add: process_note_def)
next
  assume "\<not> multipart (content_type req) \<and> json_body req = Inl err"
  with k show "process_note e req = ([], caught e err)" by (simp add: process_note_def)
next
  assume a: "\<not> multipart (content_type req) \<and> json_body req = Inr body \<and>
      (body = JNull \<or>
       truthy (get_prop body (js ''image'')) \<and>
       (\<forall>s. get_prop body (js ''image'') \<noteq> Some (JStr s)))"
  with k have p: "process_note e req = json_upload e body" by (simp add: process_note_def)
  from a have "json_upload e body = ([], caught e TypeError)"
    by (auto simp: json_upload_def split: option.splits json.splits)
  with p show "process_note e req = ([], caught e TypeError)" by simp
qed

lemma rejections:
  assumes k: "truthy (map_option JStr (GOOGLE_GEMINI_API_KEY e))"
  shows "(\<not> multipart (content_type req) \<and> json_body req = Inr body \<and> body \<noteq> JNull \<and>
      \<not> truthy (get_prop body (js ''image'')) \<longrightarrow>
        process_note e req = ([], Failure 400 (js ''No image data provided'') None None)) \<and>
     (multipart (content_type req) \<and> formData req = Inr (imageFile, optionsStr) \<longrightarrow>
        (imageFile = None \<or> imageFile = Some (FormString []) \<longrightarrow>
           process_note e req = ([], Failure 400 (js ''No image file provided'') None None)) \<and>
        (\<forall>str. imageFile = Some (FormString str) \<and> str \<noteq> [] \<longrightarrow>
           process_note e req = ([], Failure 400 (js ''Invalid file format'') None None)) \<and>
        (\<forall>f. imageFile = Some (FormFile f) \<and> 10 * 1024 * 1024 < length (file_bytes f) \<longrightarrow>
           process_note e req =
             ([], Failure 400 (js ''Image file too large. Maximum size is 10MB'') None None)) \<and>
        (\<forall>f. imageFile = Some (FormFile f) \<and> length (file_bytes f) \<le> 10 * 1024 * 1024 \<and>
             \<not> startsWith (file_type f) (js ''image/'') \<longrightarrow>
           process_note e req =
             ([], Failure 400 (js ''Invalid file type. Only image files are allowed'')
                    None None)) \<and>
        (\<forall>f str why. imageFile = Some (FormFile f) \<and>
             length (file_bytes f) \<le> 10 * 1024 * 1024 \<and>
             startsWith (file_type f) (js ''image/'') \<and>
             optionsStr = Some (FormString str) \<and> str \<noteq> [] \<and> JSON_parse e str = Inl why \<longrightarrow>
           process_note e req = ([], Failure 400 (js ''Invalid options JSON'') None None)))"
proof (rule conjI; rule impI)
  assume "\<not> multipart (content_type req) \<and> json_body req = Inr body \<and> body \<noteq> JNull \<and>
      \<not> truthy (get_prop body (js ''image''))"
  with k show "process_note e req = ([], Failure 400 (js ''No image data provided'') None None)"
    by (simp add: process_note_def json_upload_def)
next
  assume "multipart (content_type req) \<and> formData req = Inr (imageFile, optionsStr)"
  with k have p: "process_note e req = multipart_upload e imageFile optionsStr"
    by (simp add: process_note_def)
  show "(imageFile = None \<or> imageFile = Some (FormString []) \<longrightarrow>
           process_note e req = ([], Failure 400 (js ''No image file provided'') None None)) \<and>
        (\<forall>str. imageFile = Some (FormString str) \<and> str \<noteq> [] \<longrightarrow>
           process_note e req = ([], Failure 400 (js ''Invalid file format'') None None)) \<and>
        (\<forall>f. imageFile = Some (FormFile f) \<and> 10 * 1024 * 1024 < length (file_bytes f) \<longrightarrow>
           process_note e req =
             ([], Failure 400 (js ''Image file too large. Maximum size is 10MB'') None None)) \<and>
        (\<forall>f. imageFile = Some (FormFile f) \<and> length (file_bytes f) \<le> 10 * 1024 * 1024 \<and>
             \<not> startsWith (file_type f) (js ''image/'') \<longrightarrow>
           process_note e req =
             ([], Failure 400 (js ''Invalid file type. Only image files are allowed'')
                    None None)) \<and>
        (\<forall>f str why. imageFile = Some (FormFile f) \<and>
             length (file_bytes f) \<le> 10 * 1024 * 1024 \<and>
             startsWith (file_type f) (js ''image/'') \<and>
             optionsStr = Some (FormString str) \<and> str \<noteq> [] \<and> JSON_parse e str = Inl why \<longrightarrow>
           process_note e req = ([], Failure 400 (js ''Invalid options JSON'') None None))"
    unfolding p by (auto simp: multipart_upload_def with_options_def)
qed

text \<open>
  C9, as the code has it. An error response of the endpoint is of one of four kinds: a
  rejection with status 400, or the response for a missing key with status 500, both
  without details, without elapsed time and without any effect performed; or, from the
  handler of thrown errors, status 500 with the text \<open>Failed to process image\<close>, the
  thrown error as details and the elapsed time, or status 429 with the elapsed time when
  the message of the thrown error mentions the quota. The success envelope carries the
  elapsed time. The handler of thrown errors answers every failure of the processing:
  a body that cannot be read, a \<open>null\<close> body or an image that is not a string, and, for an
  accepted request, a payload that \<^verbatim>\<open>atob\<close> rejects, a store that throws, a prompt that
  cannot be built, a vision call that throws, a reply that the sanitizer rejects and a
  note that the formatter rejects; when none of these fails the answer is the success
  envelope. A missing key and each invalid input (no image, an image entry that is a
  string, a file that is too large or not an image, options that do not parse) get the
  untimed responses.
\<close>

theorem error_responses_timing:
  "(snd (process_note e req) = Failure st msg det t \<longrightarrow>
      (st = 400 \<and> det = None \<and> t = None \<and> fst (process_note e req) = []) \<or>
      (st = 500 \<and> msg = js ''Google Gemini API key not configured'' \<and> det = None \<and>
         t = None \<and> fst (process_note e req) = []) \<or>
      (st = 500 \<and> msg = js ''Failed to process image'' \<and>
         (\<exists>err. det = Some err \<and> \<not> mentions_quota err) \<and>
         t = Some (endTime e - startTime e)) \<or>
      (st = 429 \<and> msg = js ''API quota exceeded. Please try again later.'' \<and> det = None \<and>
         t = Some (endTime e - startTime e))) \<and>
   (snd (process_note e req) = Success result t' \<longrightarrow> t' = endTime e - startTime e) \<and>
   (\<forall>thrown. caught e thrown =
      (if mentions_quota thrown
       then Failure 429 (js ''API quota exceeded. Please try again later.'') None
              (Some (endTime e - startTime e))
       else Failure 500 (js ''Failed to process image'') (Some thrown)
              (Some (endTime e - startTime e)))) \<and>
   (\<not> truthy (map_option JStr (GOOGLE_GEMINI_API_KEY e)) \<longrightarrow>
      process_note e req =
        ([], Failure 500 (js ''Google Gemini API key not configured'') None None)) \<and>
   (truthy (map_option JStr (GOOGLE_GEMINI_API_KEY e)) \<longrightarrow>
      (multipart (content_type req) \<and> formData req = Inl err \<longrightarrow>
         process_note e req = ([], caught e err)) \<and>
      (\<not> multipart (content_type req) \<and> json_body req = Inl err \<longrightarrow>
         process_note e req = ([], caught e err)) \<and>
      (\<not> multipart (content_type req) \<and> json_body req = Inr body \<and>
       (body = JNull \<or>
        truthy (get_prop body (js ''image'')) \<and>
        (\<forall>s. get_prop body (js ''image'') \<noteq> Some (JStr s))) \<longrightarrow>
         process_note e req = ([], caught e TypeError))) \<and>
   (accepted e req imageData options \<longrightarrow>
      (\<not> atob_ok (payload_of imageData) \<longrightarrow>
         process_note e req = ([], caught e InvalidCharacterError)) \<and>
      (atob_ok (payload_of imageData) \<and> R2_put e (mime_of imageData) = Some err \<longrightarrow>
         process_note e req = ([Stored (mime_of imageData)], caught e err)) \<and>
      (atob_ok (payload_of imageData) \<and> R2_put e (mime_of imageData) = None \<longrightarrow>
         (buildPrompt options = Inl err \<longrightarrow> snd (process_note e req) = caught e err) \<and>
         (\<forall>p. buildPrompt options = Inr p \<longrightarrow>
            (generateContent e p (mime_of imageData) (payload_of imageData) = Inl err \<longrightarrow>
               snd (process_note e req) = caught e err) \<and>
            (\<forall>reply. generateContent e p (mime_of imageData) (payload_of imageData) = Inr reply \<longrightarrow>
               (sanitize (JSON_parse e) reply = Inl err \<longrightarrow>
                  snd (process_note e req) = caught e err) \<and>
               (\<forall>r. sanitize (JSON_parse e) reply = Inr r \<longrightarrow>
                  (format_todo r = Inl err \<longrightarrow> snd (process_note e req) = caught e err) \<and>
                  (\<forall>r'. format_todo r = Inr r' \<longrightarrow>
                     snd (process_note e req) = Success r' (endTime e - startTime e))))))) \<and>
   (truthy (map_option JStr (GOOGLE_GEMINI_API_KEY e)) \<longrightarrow>
      (\<not> multipart (content_type req) \<and> json_body req = Inr body \<and> body \<noteq> JNull \<and>
       \<not> truthy (get_prop body (js ''image'')) \<longrightarrow>
         process_note e req = ([], Failure 400 (js ''No image data provided'') None None)) \<and>
      (multipart (content_type req) \<and> formData req = Inr (imageFile, optionsStr) \<longrightarrow>
         (imageFile = None \<or> imageFile = Some (FormString []) \<longrightarrow>
            process_note e req = ([], Failure 400 (js ''No image file provided'') None None)) \<and>
         (\<forall>str. imageFile = Some (FormString str) \<and> str \<noteq> [] \<longrightarrow>
            process_note e req = ([], Failure 400 (js ''Invalid file format'') None None)) \<and>
         (\<forall>f. imageFile = Some (FormFile f) \<and> 10 * 1024 * 1024 < length (file_bytes f) \<longrightarrow>
            process_note e req =
              ([], Failure 400 (js ''Image file too large. Maximum size is 10MB'') None None)) \<and>
         (\<forall>f. imageFile = Some (FormFile f) \<and> length (file_bytes f) \<le> 10 * 1024 * 1024 \<and>
              \<not> startsWith (file_type f) (js ''image/'') \<longrightarrow>
            process_note e req =
              ([], Failure 400 (js ''Invalid file type. Only image files are allowed'')
                     None None)) \<and>
         (\<forall>f str why. imageFile = Some (FormFile f) \<and>
              length (file_bytes f) \<le> 10 * 1024 * 1024 \<and>
              startsWith (file_type f) (js ''image/'') \<and>
              optionsStr = Some (FormString str) \<and> str \<noteq> [] \<and> JSON_parse e str = Inl why \<longrightarrow>
            process_note e req = ([], Failure 400 (js ''Invalid options JSON'') None None))))"
proof -
  have 3: "\<forall>thrown. caught e thrown =
      (if mentions_quota thrown
       then Failure 429 (js ''API quota exceeded. Please try again later.'') None
              (Some (endTime e - startTime e))
       else Failure 500 (js ''Failed to process image'') (Some thrown)
              (Some (endTime e - startTime e)))"
    by (simp add: caught_cases)
  have 4: "\<not> truthy (map_option JStr (GOOGLE_GEMINI_API_KEY e)) \<longrightarrow>
      process_note e req =
        ([], Failure 500 (js ''Google Gemini API key not configured'') None None)"
    by (simp add: process_note_def)
  show ?thesis
    by (intro conjI)
      (rule 3 | rule 4 | rule impI, erule response_classes | rule impI, erule success_timed |
       rule impI, erule thrown_before_upload | rule impI, erule accepted_outcomes |
       rule impI, erule rejections)+
qed

section \<open>Which image strings reach the pipeline\<close>

lemma pipeline_logged:
  "\<exists>rest. fst (processHandwrittenNote e imageData options) = Pipeline imageData options # rest"
  by (simp add: processHandwrittenNote_def split: sum.split)

lemma caught_not_400: "caught e err \<noteq> Failure 400 msg det t"
  by (simp add: caught_def)

lemma store_and_process_not_400:
  "snd (store_and_process e imageData options) \<noteq> Failure 400 msg det t"
  unfolding store_and_process_def
  by (simp add: caught_not_400 split: option.split prod.split sum.split)

lemma store_and_process_undecodable:
  "\<not> atob_ok (payload_of imageData) \<Longrightarrow>
   store_and_process e imageData options =
     ([], Failure 500 (js ''Failed to process image'') (Some InvalidCharacterError)
            (Some (endTime e - startTime e)))"
  by (simp add: store_and_process_def caught_def)

lemma store_and_process_forwards:
  assumes "atob_ok (payload_of imageData)" and "R2_put e (mime_of imageData) = None"
  shows "\<exists>rest. fst (store_and_process e imageData options) =
     Stored (mime_of imageData) # Pipeline imageData options # rest"
proof -
  obtain rest where r: "fst (processHandwrittenNote e imageData options) =
      Pipeline imageData options # rest"
    using pipeline_logged by blast
  obtain effects outcome where p: "processHandwrittenNote e imageData options = (effects, outcome)"
    by (cases "processHandwrittenNote e imageData options")
  with r have "effects = Pipeline imageData options # rest" by simp
  with assms p show ?thesis
    by (cases outcome) (simp_all add: store_and_process_def)
qed

lemma store_and_process_store_fails:
  assumes "atob_ok (payload_of imageData)" and "R2_put e (mime_of imageData) = Some err"
  shows "store_and_process e imageData options = ([Stored (mime_of imageData)], caught e err)"
  using assms by (simp add: store_and_process_def)

lemma json_upload_string:
  assumes "lookup kvs (js ''image'') = Some (JStr s)" and "s \<noteq> []"
  shows "json_upload e (JObj kvs) =
     store_and_process e s (or_lit (lookup kvs (js ''options'')) (JObj []))"
  using assms by (simp add: json_upload_def)

lemma process_note_json:
  assumes "truthy (map_option JStr (GOOGLE_GEMINI_API_KEY e))"
    and "\<not> multipart (content_type req)" and "json_body req = Inr body"
  shows "process_note e req = json_upload e body"
  using assms by (simp add: process_note_def)

text \<open>
  C10, as the code has it. At the tool interface an image string that does not start
  with \<^verbatim>\<open>data:image/\<close> gets an error result and no effect is performed: neither the
  pipeline nor the vision service is invoked. The JSON branch of the REST endpoint, with
  a key configured, never answers a non-empty image string with status 400, whatever its
  prefix, type or size. It hands the string to the pipeline when \<^verbatim>\<open>atob\<close> accepts the
  piece after the first comma (\<^verbatim>\<open>imageData.split(',')[1]\<close>) and the store accepts the
  bytes; when \<^verbatim>\<open>atob\<close> rejects that piece it answers 500 without any effect, and when
  the store throws it answers from the handler of thrown errors with only the store
  attempted.
\<close>

theorem image_string_checks:
  "(\<not> startsWith (image_arg a) (js ''data:image/'') \<longrightarrow>
      fst (process_handwritten_note e a) = [] \<and> isError (snd (process_handwritten_note e a))) \<and>
   (truthy (map_option JStr (GOOGLE_GEMINI_API_KEY e)) \<and> \<not> multipart (content_type req) \<and>
    json_body req = Inr (JObj kvs) \<and> lookup kvs (js ''image'') = Some (JStr s) \<and> s \<noteq> [] \<longrightarrow>
      (\<forall>msg det t. snd (process_note e req) \<noteq> Failure 400 msg det t) \<and>
      (atob_ok (payload_of s) \<and> R2_put e (mime_of s) = None \<longrightarrow>
         (\<exists>rest. fst (process_note e req) =
            Stored (mime_of s) #
            Pipeline s (or_lit (lookup kvs (js ''options'')) (JObj [])) # rest)) \<and>
      (\<not> atob_ok (payload_of s) \<longrightarrow>
         process_note e req =
           ([], Failure 500 (js ''Failed to process image'') (Some InvalidCharacterError)
                  (Some (endTime e - startTime e)))) \<and>
      (\<forall>err. atob_ok (payload_of s) \<and> R2_put e (mime_of s) = Some err \<longrightarrow>
         process_note e req = ([Stored (mime_of s)], caught e err)))"
proof (intro conjI impI allI)
  assume "\<not> startsWith (image_arg a) (js ''data:image/'')"
  then show "fst (process_handwritten_note e a) = []"
    and "isError (snd (process_handwritten_note e a))"
    by (simp_all add: process_handwritten_note_def)
next
  fix msg det t
  assume a: "truthy (map_option JStr (GOOGLE_GEMINI_API_KEY e)) \<and> \<not> multipart (content_type req) \<and>
    json_body req = Inr (JObj kvs) \<and> lookup kvs (js ''image'') = Some (JStr s) \<and> s \<noteq> []"
  then have "process_note e req =
      store_and_process e s (or_lit (lookup kvs (js ''options'')) (JObj []))"
    by (simp add: process_note_json json_upload_string)
  then show "snd (process_note e req) \<noteq> Failure 400 msg det t"
    by (simp add: store_and_process_not_400)
next
  assume a: "truthy (map_option JStr (GOOGLE_GEMINI_API_KEY e)) \<and> \<not> multipart (content_type req) \<and>
    json_body req = Inr (JObj kvs) \<and> lookup kvs (js ''image'') = Some (JStr s) \<and> s \<noteq> []"
    and b: "atob_ok (payload_of s) \<and> R2_put e (mime_of s) = None"
  from a have "process_note e req =
      store_and_process e s (or_lit (lookup kvs (js ''options'')) (JObj []))"
    by (simp add: process_note_json json_upload_string)
  then show "\<exists>rest. fst (process_note e req) =
            Stored (mime_of s) #
            Pipeline s (or_lit (lookup kvs (js ''options'')) (JObj [])) # rest"
    using b store_and_process_forwards by simp
next
  assume a: "truthy (map_option JStr (GOOGLE_GEMINI_API_KEY e)) \<and> \<not> multipart (content_type req) \<and>
    json_body req = Inr (JObj kvs) \<and> lookup kvs (js ''image'') = Some (JStr s) \<and> s \<noteq> []"
    and b: "\<not> atob_ok (payload_of s)"
  from a have "process_note e req =
      store_and_process e s (or_lit (lookup kvs (js ''options'')) (JObj []))"
    by (simp add: process_note_json json_upload_string)
  then show "process_note e req =
           ([], Failure 500 (js ''Failed to process image'') (Some InvalidCharacterError)
                  (Some (endTime e - startTime e)))"
    using b by (simp add: store_and_process_undecodable)
next
  fix err
  assume a: "truthy (map_option JStr (GOOGLE_GEMINI_API_KEY e)) \<and> \<not> multipart (content_type req) \<and>
    json_body req = Inr (JObj kvs) \<and> lookup kvs (js ''image'') = Some (JStr s) \<and> s \<noteq> []"
    and b: "atob_ok (payload_of s) \<and> R2_put e (mime_of s) = Some err"
  from a have "process_note e req =
      store_and_process e s (or_lit (lookup kvs (js ''options'')) (JObj []))"
    by (simp add: process_note_json json_upload_string)
  then show "process_note e req = ([Stored (mime_of s)], caught e err)"
    using b by (simp add: store_and_process_store_fails)
qed

section \<open>Concrete requests\<close>

lemmas run_defs =
  process_note_def json_upload_def multipart_upload_def with_options_def store_and_process_def
  processHandwrittenNote_def buildPrompt_def sanitize_def parse_reply_def jsonMatch_def
  caught_def multipart_def mime_of_def payload_of_def atob_ok_def strip_padding_def
  is_b64_char_def is_ascii_space_def startsWith_def lookup_def or_lit_def jor_def js_def Let_def
  process_handwritten_note_def tool_options_def sanitize_fields_def array_or_empty_def
  sanitize_confidence_def format_todo_def is_todo_def toLowerCase_def lower_unit_def

text \<open>
  C9 as stated fails for an invalid input: a multipart request without an image entry is
  answered with status 400 and no elapsed time.
\<close>

theorem error_responses_timing_counterexample:
  "snd (process_note
     \<lparr>GOOGLE_GEMINI_API_KEY = Some (js ''key''), R2_put = (\<lambda>contentType. None),
      generateContent = (\<lambda>p mimeType data. Inr None), JSON_parse = (\<lambda>s. Inl []),
      startTime = 0, endTime = 7\<rparr>
     \<lparr>content_type = Some (js ''multipart/form-data; boundary=x''),
      formData = Inr (None, None), json_body = Inl (Error [])\<rparr>) =
   Failure 400 (js ''No image file provided'') None None"
  by (simp add: run_defs)

text \<open>
  A request whose image is accepted: when the vision service replies nothing, the
  response is the failure with status 500 and the elapsed time 7; when the service
  throws an error that mentions the quota, it is the failure with status 429 and the
  same time; when the service replies \<^verbatim>\<open>{}\<close>, it is the success envelope with the
  default note and the same time. An image that is the number 5 is answered with the
  timed status 500, and without a key the answer is the untimed status 500.
\<close>

theorem error_responses_timing_witness:
  "snd (process_note
     \<lparr>GOOGLE_GEMINI_API_KEY = Some (js ''key''), R2_put = (\<lambda>contentType. None),
      generateContent = (\<lambda>p mimeType data. Inr None), JSON_parse = (\<lambda>s. Inl []),
      startTime = 0, endTime = 7\<rparr>
     \<lparr>content_type = Some (js ''application/json''), formData = Inl (Error []),
      json_body = Inr (JObj [(js ''image'', JStr (js ''data:image/png;base64,iVBORw0KGgo=''))])\<rparr>) =
   Failure 500 (js ''Failed to process image'')
     (Some (Error (js ''Empty response from AI service''))) (Some 7) \<and>
   snd (process_note
     \<lparr>GOOGLE_GEMINI_API_KEY = Some (js ''key''), R2_put = (\<lambda>contentType. None),
      generateContent = (\<lambda>p mimeType data. Inl (Error (js ''quota exceeded''))),
      JSON_parse = (\<lambda>s. Inl []), startTime = 0, endTime = 7\<rparr>
     \<lparr>content_type = Some (js ''application/json''), formData = Inl (Error []),
      json_body = Inr (JObj [(js ''image'', JStr (js ''data:image/png;base64,iVBORw0KGgo=''))])\<rparr>) =
   Failure 429 (js ''API quota exceeded. Please try again later.'') None (Some 7) \<and>
   snd (process_note
     \<lparr>GOOGLE_GEMINI_API_KEY = Some (js ''key''), R2_put = (\<lambda>contentType. None),
      generateContent = (\<lambda>p mimeType data. Inr (Some (js ''{}''))),
      JSON_parse = (\<lambda>s. Inr (JObj [])), startTime = 0, endTime = 7\<rparr>
     \<lparr>content_type = Some (js ''application/json''), formData = Inl (Error []),
      json_body = Inr (JObj [(js ''image'', JStr (js ''data:image/png;base64,iVBORw0KGgo=''))])\<rparr>) =
   Success
     \<lparr>title = JStr (js ''Untitled Note''), content = JStr [], category = JStr (js ''note''),
      tags = [], dates = [], contacts = [], confidence = Fin 0.8, raw_text = JStr []\<rparr> 7 \<and>
   process_note
     \<lparr>GOOGLE_GEMINI_API_KEY = Some (js ''key''), R2_put = (\<lambda>contentType. None),
      generateContent = (\<lambda>p mimeType data. Inr None), JSON_parse = (\<lambda>s. Inl []),
      startTime = 0, endTime = 7\<rparr>
     \<lparr>content_type = Some (js ''application/json''), formData = Inl (Error []),
      json_body = Inr (JObj [(js ''image'', JNum (Fin 5))])\<rparr> =
   ([], Failure 500 (js ''Failed to process image'') (Some TypeError) (Some 7)) \<and>
   process_note
     \<lparr>GOOGLE_GEMINI_API_KEY = None, R2_put = (\<lambda>contentType. None),
      generateContent = (\<lambda>p mimeType data. Inr None), JSON_parse = (\<lambda>s. Inl []),
      startTime = 0, endTime = 7\<rparr>
     \<lparr>content_type = Some (js ''application/json''), formData = Inl (Error []),
      json_body = Inr (JObj [(js ''image'', JNum (Fin 5))])\<rparr> =
   ([], Failure 500 (js ''Google Gemini API key not configured'') None None)"
proof -
  let ?E = "\<lparr>GOOGLE_GEMINI_API_KEY = Some (js ''key''), R2_put = (\<lambda>contentType. None),
      generateContent = (\<lambda>p mimeType data. Inr None), JSON_parse = (\<lambda>s. Inl []),
      startTime = 0, endTime = 7\<rparr>"
  let ?Q = "\<lparr>GOOGLE_GEMINI_API_KEY = Some (js ''key''), R2_put = (\<lambda>contentType. None),
      generateContent = (\<lambda>p mimeType data. Inl (Error (js ''quota exceeded''))),
      JSON_parse = (\<lambda>s. Inl []), startTime = 0, endTime = 7\<rparr>"
  let ?G = "\<lparr>GOOGLE_GEMINI_API_KEY = Some (js ''key''), R2_put = (\<lambda>contentType. None),
      generateContent = (\<lambda>p mimeType data. Inr (Some (js ''{}''))),
      JSON_parse = (\<lambda>s. Inr (JObj [])), startTime = 0, endTime = 7\<rparr>"
  let ?U = "\<lparr>GOOGLE_GEMINI_API_KEY = None, R2_put = (\<lambda>contentType. None),
      generateContent = (\<lambda>p mimeType data. Inr None), JSON_parse = (\<lambda>s. Inl []),
      startTime = 0, endTime = 7\<rparr>"
  let ?s = "js ''data:image/png;base64,iVBORw0KGgo=''"
  let ?R = "\<lparr>content_type = Some (js ''application/json''), formData = Inl (Error []),
      json_body = Inr (JObj [(js ''image'', JStr ?s)])\<rparr>"
  let ?T = "\<lparr>content_type = Some (js ''application/json''), formData = Inl (Error []),
      json_body = Inr (JObj [(js ''image'', JNum (Fin 5))])\<rparr>"
  let ?N = "\<lparr>title = JStr (js ''Untitled Note''), content = JStr [], category = JStr (js ''note''),
      tags = [], dates = [], contacts = [], confidence = Fin 0.8, raw_text = JStr []\<rparr>"
  let ?p = "\<lparr>extractDates = True, extractContacts = False, categoryHints = None\<rparr>"
  let ?empty = "Error (js ''Empty response from AI service'')"
  let ?quota = "Error (js ''quota exceeded'')"
  have json: "\<not> multipart (Some (js ''application/json''))"
    by (simp add: multipart_def startsWith_def js_def)
  have image: "get_prop (JObj [(js ''image'', JStr ?s)]) (js ''image'') = Some (JStr ?s)"
    and options: "or_lit (get_prop (JObj [(js ''image'', JStr ?s)]) (js ''options'')) (JObj []) =
      JObj []"
    by (simp_all add: lookup_def or_lit_def js_def)
  have ne: "?s \<noteq> []" by (simp add: js_def)
  have accE: "accepted ?E ?R ?s (JObj [])"
    unfolding accepted_def using json image options ne by (simp add: js_def)
  have accQ: "accepted ?Q ?R ?s (JObj [])"
    unfolding accepted_def using json image options ne by (simp add: js_def)
  have ok: "atob_ok (payload_of ?s)"
    by (simp add: atob_ok_def payload_of_def strip_padding_def is_b64_char_def
        is_ascii_space_def js_def)
  have stE: "atob_ok (payload_of ?s) \<and> R2_put ?E (mime_of ?s) = None"
    and stQ: "atob_ok (payload_of ?s) \<and> R2_put ?Q (mime_of ?s) = None"
    using ok by simp_all
  have bp: "buildPrompt (JObj []) = Inr ?p"
    by (simp add: buildPrompt_def lookup_def)
  have gcE: "generateContent ?E ?p (mime_of ?s) (payload_of ?s) = Inr None"
    and gcQ: "generateContent ?Q ?p (mime_of ?s) (payload_of ?s) = Inl ?quota"
    by simp_all
  have sz: "sanitize (JSON_parse ?E) None = Inl ?empty"
    by (simp add: sanitize_def parse_reply_def)
  note parsing = error_responses_timing [where e = ?E and req = ?R and imageData = ?s
      and options = "JObj []" and err = ?empty,
      THEN conjunct2, THEN conjunct2, THEN conjunct2, THEN conjunct2, THEN conjunct2,
      THEN conjunct1, THEN mp, OF accE, THEN conjunct2, THEN conjunct2, THEN mp, OF stE,
      THEN conjunct2, THEN spec, THEN mp, OF bp, THEN conjunct2, THEN spec, THEN mp, OF gcE,
      THEN conjunct1, THEN mp, OF sz]
  note caughtE = error_responses_timing [where e = ?E,
      THEN conjunct2, THEN conjunct2, THEN conjunct1, THEN spec]
  have 1: "snd (process_note ?E ?R) =
      Failure 500 (js ''Failed to process image'') (Some ?empty) (Some 7)"
    unfolding parsing caughtE [of ?empty] by (simp add: startsWith_def js_def)
  note vision = error_responses_timing [where e = ?Q and req = ?R and imageData = ?s
      and options = "JObj []" and err = ?quota,
      THEN conjunct2, THEN conjunct2, THEN conjunct2, THEN conjunct2, THEN conjunct2,
      THEN conjunct1, THEN mp, OF accQ, THEN conjunct2, THEN conjunct2, THEN mp, OF stQ,
      THEN conjunct2, THEN spec, THEN mp, OF bp, THEN conjunct1, THEN mp, OF gcQ]
  note caughtQ = error_responses_timing [where e = ?Q,
      THEN conjunct2, THEN conjunct2, THEN conjunct1, THEN spec]
  have 2: "snd (process_note ?Q ?R) =
      Failure 429 (js ''API quota exceeded. Please try again later.'') None (Some 7)"
    unfolding vision caughtQ [of ?quota] by (simp add: startsWith_def js_def)
  obtain t' where s: "snd (process_note ?G ?R) = Success ?N t'"
    by (simp add: process_note_def json_upload_def store_and_process_def
        processHandwrittenNote_def buildPrompt_def sanitize_def parse_reply_def jsonMatch_def
        multipart_def mime_of_def payload_of_def atob_ok_def strip_padding_def
        is_b64_char_def is_ascii_space_def startsWith_def lookup_def or_lit_def jor_def js_def
        sanitize_fields_def array_or_empty_def sanitize_confidence_def format_todo_def
        is_todo_def toLowerCase_def lower_unit_def)
  have "t' = endTime ?G - startTime ?G"
    by (rule error_responses_timing [where e = ?G and req = ?R and result = ?N and t' = t',
          THEN conjunct2, THEN conjunct1, THEN mp, OF s])
  then have "t' = 7" by simp
  with s have 3: "snd (process_note ?G ?R) = Success ?N 7" by simp
  have key: "truthy (map_option JStr (GOOGLE_GEMINI_API_KEY ?E))" by (simp add: js_def)
  have body: "\<not> multipart (content_type ?T) \<and>
      json_body ?T = Inr (JObj [(js ''image'', JNum (Fin 5))]) \<and>
      (JObj [(js ''image'', JNum (Fin 5))] = JNull \<or>
       truthy (get_prop (JObj [(js ''image'', JNum (Fin 5))]) (js ''image'')) \<and>
       (\<forall>s. get_prop (JObj [(js ''image'', JNum (Fin 5))]) (js ''image'') \<noteq> Some (JStr s)))"
    using json by (simp add: lookup_def js_def)
  note typed = error_responses_timing [where e = ?E and req = ?T
      and body = "JObj [(js ''image'', JNum (Fin 5))]",
      THEN conjunct2, THEN conjunct2, THEN conjunct2, THEN conjunct2, THEN conjunct1,
      THEN mp, OF key, THEN conjunct2, THEN conjunct2, THEN mp, OF body]
  have 4: "process_note ?E ?T =
      ([], Failure 500 (js ''Failed to process image'') (Some TypeError) (Some 7))"
    unfolding typed caughtE [of TypeError] by simp
  have nokey: "\<not> truthy (map_option JStr (GOOGLE_GEMINI_API_KEY ?U))" by simp
  note 5 = error_responses_timing [where e = ?U and req = ?T,
      THEN conjunct2, THEN conjunct2, THEN conjunct2, THEN conjunct1, THEN mp, OF nokey]
  show ?thesis by (intro conjI) (rule 1 2 3 4 5)+
qed

text \<open>
  C10 as stated fails for the image string \<^verbatim>\<open>hello\<close> in a JSON body: it is not empty, yet
  the handler performs no effect at all (the pipeline is not invoked) and answers 500,
  because \<^verbatim>\<open>atob\<close> rejects the missing payload.
\<close>

theorem image_string_checks_counterexample:
  "process_note
     \<lparr>GOOGLE_GEMINI_API_KEY = Some (js ''key''), R2_put = (\<lambda>contentType. None),
      generateContent = (\<lambda>p mimeType data. Inr None), JSON_parse = (\<lambda>s. Inl []),
      startTime = 0, endTime = 7\<rparr>
     \<lparr>content_type = Some (js ''application/json''),
      formData = Inl (Error []), json_body = Inr (JObj [(js ''image'', JStr (js ''hello''))])\<rparr> =
   ([], Failure 500 (js ''Failed to process image'') (Some InvalidCharacterError) (Some 7))"
  by (simp add: run_defs)

text \<open>
  C6 at the JSON body \<^verbatim>\<open>{"image": "data:text/plain;base64,aGVsbG8="}\<close>, whose declared
  type is not an image: the request is not rejected with status 400; the payload is
  stored, the pipeline runs and the vision service is called with the type
  \<^verbatim>\<open>text/plain\<close>. (The service replies nothing here, hence the final 500.)
\<close>

theorem json_body_image_unchecked:
  "process_note
     \<lparr>GOOGLE_GEMINI_API_KEY = Some (js ''key''), R2_put = (\<lambda>contentType. None),
      generateContent = (\<lambda>p mimeType data. Inr None), JSON_parse = (\<lambda>s. Inl []),
      startTime = 0, endTime = 7\<rparr>
     \<lparr>content_type = Some (js ''application/json''),
      formData = Inl (Error []),
      json_body = Inr (JObj [(js ''image'', JStr (js ''data:text/plain;base64,aGVsbG8=''))])\<rparr> =
   ([Stored (Some (js ''text/plain'')),
     Pipeline (js ''data:text/plain;base64,aGVsbG8='') (JObj []),
     Vision \<lparr>extractDates = True, extractContacts = False, categoryHints = None\<rparr>
       (Some (js ''text/plain'')) (Some (js ''aGVsbG8=''))],
    Failure 500 (js ''Failed to process image'')
      (Some (Error (js ''Empty response from AI service''))) (Some 7))"
  by (simp add: run_defs)

text \<open>
  The string \<^verbatim>\<open>data:text/plain;base64,aGVsbG8=\<close> at both interfaces: the tool rejects
  it without any effect, the REST endpoint stores it and hands it to the pipeline.
\<close>

theorem image_string_checks_witness:
  "fst (process_handwritten_note
     \<lparr>GOOGLE_GEMINI_API_KEY = Some (js ''key''), R2_put = (\<lambda>contentType. None),
      generateContent = (\<lambda>p mimeType data. Inr None), JSON_parse = (\<lambda>s. Inl []),
      startTime = 0, endTime = 7\<rparr>
     \<lparr>image_arg = js ''data:text/plain;base64,aGVsbG8='', category_hints = None,
      extract_dates = True, extract_contacts = False\<rparr>) = [] \<and>
   isError (snd (process_handwritten_note
     \<lparr>GOOGLE_GEMINI_API_KEY = Some (js ''key''), R2_put = (\<lambda>contentType. None),
      generateContent = (\<lambda>p mimeType data. Inr None), JSON_parse = (\<lambda>s. Inl []),
      startTime = 0, endTime = 7\<rparr>
     \<lparr>image_arg = js ''data:text/plain;base64,aGVsbG8='', category_hints = None,
      extract_dates = True, extract_contacts = False\<rparr>)) \<and>
   (\<exists>rest. fst (process_note
     \<lparr>GOOGLE_GEMINI_API_KEY = Some (js ''key''), R2_put = (\<lambda>contentType. None),
      generateContent = (\<lambda>p mimeType data. Inr None), JSON_parse = (\<lambda>s. Inl []),
      startTime = 0, endTime = 7\<rparr>
     \<lparr>content_type = Some (js ''application/json''), formData = Inl (Error []),
      json_body = Inr (JObj [(js ''image'', JStr (js ''data:text/plain;base64,aGVsbG8=''))])\<rparr>) =
     Stored (Some (js ''text/plain'')) #
     Pipeline (js ''data:text/plain;base64,aGVsbG8='') (JObj []) # rest)"
proof -
  let ?E = "\<lparr>GOOGLE_GEMINI_API_KEY = Some (js ''key''), R2_put = (\<lambda>contentType. None),
      generateContent = (\<lambda>p mimeType data. Inr None), JSON_parse = (\<lambda>s. Inl []),
      startTime = 0, endTime = 7\<rparr>"
  let ?s = "js ''data:text/plain;base64,aGVsbG8=''"
  let ?A = "\<lparr>image_arg = ?s, category_hints = None,
      extract_dates = True, extract_contacts = False\<rparr>"
  let ?K = "[(js ''image'', JStr ?s)]"
  let ?R = "\<lparr>content_type = Some (js ''application/json''), formData = Inl (Error []),
      json_body = Inr (JObj ?K)\<rparr>"
  have h1: "\<not> startsWith (image_arg ?A) (js ''data:image/'')"
    by (simp add: startsWith_def js_def)
  note tool = image_string_checks [of ?A ?E, THEN conjunct1, THEN mp, OF h1]
  have h2: "truthy (map_option JStr (GOOGLE_GEMINI_API_KEY ?E)) \<and> \<not> multipart (content_type ?R) \<and>
      json_body ?R = Inr (JObj ?K) \<and> lookup ?K (js ''image'') = Some (JStr ?s) \<and> ?s \<noteq> []"
    by (simp add: multipart_def startsWith_def lookup_def js_def)
  have m: "mime_of ?s = Some (js ''text/plain'')"
    by (simp add: mime_of_def js_def)
  have o: "or_lit (lookup ?K (js ''options'')) (JObj []) = JObj []"
    by (simp add: or_lit_def lookup_def js_def)
  have h3: "atob_ok (payload_of ?s) \<and> R2_put ?E (mime_of ?s) = None"
    by (simp add: atob_ok_def payload_of_def strip_padding_def is_b64_char_def
        is_ascii_space_def js_def)
  note rest = image_string_checks [of _ ?E ?R ?K ?s, THEN conjunct2, THEN mp, OF h2,
      THEN conjunct2, THEN conjunct1, THEN mp, OF h3, unfolded m o]
  show ?thesis by (intro conjI) (rule tool [THEN conjunct1] tool [THEN conjunct2] rest)+
qed

section \<open>Validation of an uploaded file\<close>

lemma process_note_multipart:
  assumes "truthy (map_option JStr (GOOGLE_GEMINI_API_KEY e))"
    and "multipart (content_type req)" and "formData req = Inr (imageFile, optionsStr)"
  shows "process_note e req = multipart_upload e imageFile optionsStr"
  using assms by (simp add: process_note_def)

text \<open>
  X1. The multipart branch validates the upload. With a key configured and a form that
  could be read: a missing image entry, a file of more than 10 MiB and a file whose type
  does not start with \<^verbatim>\<open>image/\<close> are each rejected with status 400 and no effect; a file
  of at most 10 MiB with an image type passes and is handed on as a data URL.
\<close>

theorem multipart_validation:
  "truthy (map_option JStr (GOOGLE_GEMINI_API_KEY e)) \<and> multipart (content_type req) \<and>
   formData req = Inr (imageFile, optionsStr) \<longrightarrow>
     (imageFile = None \<longrightarrow>
        process_note e req = ([], Failure 400 (js ''No image file provided'') None None)) \<and>
     (\<forall>f. imageFile = Some (FormFile f) \<and> 10 * 1024 * 1024 < length (file_bytes f) \<longrightarrow>
        process_note e req =
          ([], Failure 400 (js ''Image file too large. Maximum size is 10MB'') None None)) \<and>
     (\<forall>f. imageFile = Some (FormFile f) \<and> length (file_bytes f) \<le> 10 * 1024 * 1024 \<and>
          \<not> startsWith (file_type f) (js ''image/'') \<longrightarrow>
        process_note e req =
          ([], Failure 400 (js ''Invalid file type. Only image files are allowed'') None None)) \<and>
     (\<forall>f. imageFile = Some (FormFile f) \<and> length (file_bytes f) \<le> 10 * 1024 * 1024 \<and>
          startsWith (file_type f) (js ''image/'') \<longrightarrow>
        process_note e req =
          with_options e (js ''data:'' @ file_type f @ js '';base64,'' @ btoa (file_bytes f))
            optionsStr)"
proof (intro impI)
  assume "truthy (map_option JStr (GOOGLE_GEMINI_API_KEY e)) \<and> multipart (content_type req) \<and>
   formData req = Inr (imageFile, optionsStr)"
  then have p: "process_note e req = multipart_upload e imageFile optionsStr"
    by (simp add: process_note_multipart)
  show "(imageFile = None \<longrightarrow>
        process_note e req = ([], Failure 400 (js ''No image file provided'') None None)) \<and>
     (\<forall>f. imageFile = Some (FormFile f) \<and> 10 * 1024 * 1024 < length (file_bytes f) \<longrightarrow>
        process_note e req =
          ([], Failure 400 (js ''Image file too large. Maximum size is 10MB'') None None)) \<and>
     (\<forall>f. imageFile = Some (FormFile f) \<and> length (file_bytes f) \<le> 10 * 1024 * 1024 \<and>
          \<not> startsWith (file_type f) (js ''image/'') \<longrightarrow>
        process_note e req =
          ([], Failure 400 (js ''Invalid file type. Only image files are allowed'') None None)) \<and>
     (\<forall>f. imageFile = Some (FormFile f) \<and> length (file_bytes f) \<le> 10 * 1024 * 1024 \<and>
          startsWith (file_type f) (js ''image/'') \<longrightarrow>
        process_note e req =
          with_options e (js ''data:'' @ file_type f @ js '';base64,'' @ btoa (file_bytes f))
            optionsStr)"
    unfolding p by (simp add: multipart_upload_def)
qed

text \<open>
  The size boundary: a PNG of exactly 10 MiB passes, one byte more is rejected.
\<close>

theorem multipart_validation_witness:
  "process_note
     \<lparr>GOOGLE_GEMINI_API_KEY = Some (js ''key''), R2_put = (\<lambda>contentType. None),
      generateContent = (\<lambda>p mimeType data. Inr None), JSON_parse = (\<lambda>s. Inl []),
      startTime = 0, endTime = 7\<rparr>
     \<lparr>content_type = Some (js ''multipart/form-data; boundary=x''),
      formData = Inr (Some (FormFile \<lparr>file_type = js ''image/png'',
                                     file_bytes = replicate 10485760 0\<rparr>), None),
      json_body = Inl (Error [])\<rparr> =
   with_options
     \<lparr>GOOGLE_GEMINI_API_KEY = Some (js ''key''), R2_put = (\<lambda>contentType. None),
      generateContent = (\<lambda>p mimeType data. Inr None), JSON_parse = (\<lambda>s. Inl []),
      startTime = 0, endTime = 7\<rparr>
     (js ''data:'' @ js ''image/png'' @ js '';base64,'' @ btoa (replicate 10485760 0)) None \<and>
   process_note
     \<lparr>GOOGLE_GEMINI_API_KEY = Some (js ''key''), R2_put = (\<lambda>contentType. None),
      generateContent = (\<lambda>p mimeType data. Inr None), JSON_parse = (\<lambda>s. Inl []),
      startTime = 0, endTime = 7\<rparr>
     \<lparr>content_type = Some (js ''multipart/form-data; boundary=x''),
      formData = Inr (Some (FormFile \<lparr>file_type = js ''image/png'',
                                     file_bytes = replicate 10485761 0\<rparr>), None),
      json_body = Inl (Error [])\<rparr> =
   ([], Failure 400 (js ''Image file too large. Maximum size is 10MB'') None None)"
proof -
  let ?E = "\<lparr>GOOGLE_GEMINI_API_KEY = Some (js ''key''), R2_put = (\<lambda>contentType. None),
      generateContent = (\<lambda>p mimeType data. Inr None), JSON_parse = (\<lambda>s. Inl []),
      startTime = 0, endTime = 7\<rparr>"
  let ?f = "\<lparr>file_type = js ''image/png'', file_bytes = replicate 10485760 (0 :: 8 word)\<rparr>"
  let ?g = "\<lparr>file_type = js ''image/png'', file_bytes = replicate 10485761 (0 :: 8 word)\<rparr>"
  let ?R = "\<lparr>content_type = Some (js ''multipart/form-data; boundary=x''),
      formData = Inr (Some (FormFile ?f), None), json_body = Inl (Error [])\<rparr>"
  let ?S = "\<lparr>content_type = Some (js ''multipart/form-data; boundary=x''),
      formData = Inr (Some (FormFile ?g), None), json_body = Inl (Error [])\<rparr>"
  have m: "multipart (Some (js ''multipart/form-data; boundary=x''))"
    by (simp add: multipart_def startsWith_def js_def)
  have hR: "truthy (map_option JStr (GOOGLE_GEMINI_API_KEY ?E)) \<and> multipart (content_type ?R) \<and>
      formData ?R = Inr (Some (FormFile ?f), None)"
    using m by (simp add: js_def)
  have hS: "truthy (map_option JStr (GOOGLE_GEMINI_API_KEY ?E)) \<and> multipart (content_type ?S) \<and>
      formData ?S = Inr (Some (FormFile ?g), None)"
    using m by (simp add: js_def)
  have f: "Some (FormFile ?f) = Some (FormFile ?f) \<and> length (file_bytes ?f) \<le> 10 * 1024 * 1024 \<and>
      startsWith (file_type ?f) (js ''image/'')"
    by (simp add: startsWith_def js_def)
  have g: "Some (FormFile ?g) = Some (FormFile ?g) \<and> 10 * 1024 * 1024 < length (file_bytes ?g)"
    by simp
  note 1 = multipart_validation [of ?E ?R "Some (FormFile ?f)" None, THEN mp, OF hR,
      THEN conjunct2, THEN conjunct2, THEN conjunct2, THEN spec, THEN mp, OF f]
  note 2 = multipart_validation [of ?E ?S "Some (FormFile ?g)" None, THEN mp, OF hS,
      THEN conjunct2, THEN conjunct1, THEN spec, THEN mp, OF g]
  have 1: "process_note ?E ?R =
      with_options ?E (js ''data:'' @ js ''image/png'' @ js '';base64,'' @ btoa (replicate 10485760 0)) None"
    using 1 by simp
  show ?thesis by (intro conjI) (rule 1 2)+
qed

text \<open>
  X2. The data URL \<^verbatim>\<open>data:image/png;base64,iVBORw0KGgo=\<close> splits into the MIME type
  \<^verbatim>\<open>image/png\<close> and the payload \<^verbatim>\<open>iVBORw0KGgo=\<close>, which \<^verbatim>\<open>atob\<close> accepts.
\<close>

theorem data_url_parts:
  "mime_of (js ''data:image/png;base64,iVBORw0KGgo='') = Some (js ''image/png'') \<and>
   payload_of (js ''data:image/png;base64,iVBORw0KGgo='') = Some (js ''iVBORw0KGgo='') \<and>
   atob_ok (payload_of (js ''data:image/png;base64,iVBORw0KGgo=''))"
  by (simp add: mime_of_def payload_of_def atob_ok_def strip_padding_def is_b64_char_def
      is_ascii_space_def js_def)

end
